theory Spec2Isabelle
  imports Complex_Main "HOL-Library.List_Lexorder" "HOL-Library.Char_ord"
begin

section \<open>Go library values the client works with\<close>

text \<open>
  The repository is a thin client over Go's standard library (\<^verbatim>\<open>net/url\<close>,
  \<^verbatim>\<open>net/http\<close>, \<^verbatim>\<open>encoding/json\<close>, \<^verbatim>\<open>context\<close>, \<^verbatim>\<open>time\<close>, \<^verbatim>\<open>fmt\<close>,
  \<^verbatim>\<open>strings\<close>) and two third-party packages (\<^verbatim>\<open>golang.org/x/oauth2\<close>,
  \<^verbatim>\<open>github.com/mitchellh/mapstructure\<close>). This section models the library values
  and functions the repository's code calls. Where a library function is too large to
  write out (URL parsing, JSON parsing, the network) it is a parameter of the model,
  collected in the record \<open>Env\<close> below, and every theorem holds for all such
  parameters.
\<close>

subsection \<open>Strings (\<^verbatim>\<open>strings\<close>, \<^verbatim>\<open>fmt\<close>)\<close>

text \<open>\<^verbatim>\<open>strings.HasSuffix(s, suffix)\<close> and \<^verbatim>\<open>strings.TrimPrefix(s, prefix)\<close>.\<close>

definition strings_HasSuffix :: "string \<Rightarrow> string \<Rightarrow> bool" where
  "strings_HasSuffix s suffix =
     (length suffix \<le> length s \<and> drop (length s - length suffix) s = suffix)"

definition strings_HasPrefix :: "string \<Rightarrow> string \<Rightarrow> bool" where
  "strings_HasPrefix s prefix = (take (length prefix) s = prefix)"

definition strings_TrimPrefix :: "string \<Rightarrow> string \<Rightarrow> string" where
  "strings_TrimPrefix s prefix =
     (if strings_HasPrefix s prefix then drop (length prefix) s else s)"

definition strings_TrimSuffix :: "string \<Rightarrow> string \<Rightarrow> string" where
  "strings_TrimSuffix s suffix =
     (if strings_HasSuffix s suffix then take (length s - length suffix) s else s)"

text \<open>\<^verbatim>\<open>strings.Join(elems, sep)\<close>.\<close>

fun strings_Join :: "string list \<Rightarrow> string \<Rightarrow> string" where
  "strings_Join [] sep = []"
| "strings_Join [x] sep = x"
| "strings_Join (x # y # ys) sep = x @ sep @ strings_Join (y # ys) sep"

text \<open>
  \<^verbatim>\<open>strings.Split(s, sep)\<close> for a one-byte separator: the pieces between the
  separators, so \<^verbatim>\<open>Split("", "/")\<close> is the one-element list holding the empty string.
\<close>

fun strings_Split :: "string \<Rightarrow> char \<Rightarrow> string list" where
  "strings_Split [] sep = [[]]"
| "strings_Split (c # cs) sep =
     (if c = sep then [] # strings_Split cs sep
      else (c # hd (strings_Split cs sep)) # tl (strings_Split cs sep))"

text \<open>
  \<^verbatim>\<open>strings.LastIndexByte(s, c)\<close>: the index of the last \<^verbatim>\<open>c\<close> in \<^verbatim>\<open>s\<close>, or \<open>-1\<close>.
\<close>

fun strings_LastIndexByte :: "string \<Rightarrow> char \<Rightarrow> int" where
  "strings_LastIndexByte [] c = -1"
| "strings_LastIndexByte (x # xs) c =
     (let i = strings_LastIndexByte xs c
      in if i \<ge> 0 then i + 1 else if x = c then 0 else -1)"

text \<open>
  \<^verbatim>\<open>fmt.Sprintf("%d", n)\<close>: the decimal digits of \<^verbatim>\<open>n\<close>, with a leading minus sign
  for a negative number.
\<close>

function decimal_digits :: "int \<Rightarrow> string" where
  "decimal_digits n =
     (if n < 10 then [''0123456789'' ! nat n]
      else decimal_digits (n div 10) @ [''0123456789'' ! nat (n mod 10)])"
  by pat_completeness auto
termination
  by (relation "measure nat") auto

declare decimal_digits.simps [simp del]

definition Sprintf_d :: "int \<Rightarrow> string" where
  "Sprintf_d n = (if n < 0 then CHR ''-'' # decimal_digits (- n) else decimal_digits n)"

subsection \<open>URLs (\<^verbatim>\<open>net/url\<close>)\<close>

text \<open>
  \<^verbatim>\<open>url.URL\<close> with the fields the client reads. \<^verbatim>\<open>User\<close> keeps only whether
  user information is present and its text. Paths are kept in the form
  \<^verbatim>\<open>EscapedPath()\<close> reports, which is \<^verbatim>\<open>Path\<close> itself for a path without
  percent-escapes; \<^verbatim>\<open>RawPath\<close>, \<^verbatim>\<open>RawFragment\<close> and \<^verbatim>\<open>OmitHost\<close> are not modelled.
\<close>

record URL =
  Scheme :: string
  Opaque :: string
  User :: "string option"
  Host :: string
  Path :: string
  ForceQuery :: bool
  RawQuery :: string
  Fragment :: string

text \<open>
  \<^verbatim>\<open>resolvePath(base, ref)\<close> of \<^verbatim>\<open>net/url\<close> (RFC 3986, sections 5.2.2 to 5.2.4), as
  in the Go release the module names (\<^verbatim>\<open>go 1.17\<close>):
  \<^verbatim>\<open>
  func resolvePath(base, ref string) string {
      var full string
      if ref == "" {
          full = base
      } else if ref[0] != '/' {
          i := strings.LastIndex(base, "/")
          full = base[:i+1] + ref
      } else {
          full = ref
      }
      if full == "" { return "" }
      src := strings.Split(full, "/")
      dst := make([]string, 0, len(src))
      for _, elem := range src {
          switch elem {
          case ".":
          case "..":
              if len(dst) > 0 { dst = dst[:len(dst)-1] }
          default:
              dst = append(dst, elem)
          }
      }
      if last := src[len(src)-1]; last == "." || last == ".." {
          dst = append(dst, "")
      }
      return "/" + strings.TrimPrefix(strings.Join(dst, "/"), "/")
  }
  \<close>
\<close>

fun resolvePath_loop :: "string list \<Rightarrow> string list \<Rightarrow> string list" where
  "resolvePath_loop [] dst = dst"
| "resolvePath_loop (elem # src) dst =
     (if elem = ''.'' then resolvePath_loop src dst
      else if elem = ''..''
      then resolvePath_loop src (if length dst > 0 then butlast dst else dst)
      else resolvePath_loop src (dst @ [elem]))"

definition resolvePath :: "string \<Rightarrow> string \<Rightarrow> string" where
  "resolvePath base ref =
     (let full =
        (if ref = [] then base
         else if hd ref \<noteq> CHR ''/''
         then take (nat (strings_LastIndexByte base CHR ''/'' + 1)) base @ ref
         else ref)
      in if full = [] then []
         else
           let src = strings_Split full CHR ''/'';
               dst = resolvePath_loop src [];
               dst = (if last src = ''.'' \<or> last src = ''..'' then dst @ [[]] else dst)
           in ''/'' @ strings_TrimPrefix (strings_Join dst ''/'') ''/'')"

text \<open>
  \<^verbatim>\<open>func (u *URL) ResolveReference(ref *URL) *URL\<close>, on the fields above:
  \<^verbatim>\<open>
  url := *ref
  if ref.Scheme == "" { url.Scheme = u.Scheme }
  if ref.Scheme != "" || ref.Host != "" || ref.User != nil {
      url.setPath(resolvePath(ref.EscapedPath(), ""))
      return &url
  }
  if ref.Opaque != "" {
      url.User = nil; url.Host = ""; url.Path = ""
      return &url
  }
  if ref.Path == "" && !ref.ForceQuery && ref.RawQuery == "" {
      url.RawQuery = u.RawQuery
      if ref.Fragment == "" { url.Fragment = u.Fragment }
  }
  url.Host = u.Host
  url.User = u.User
  url.setPath(resolvePath(u.EscapedPath(), ref.EscapedPath()))
  return &url
  \<close>
\<close>

definition ResolveReference :: "URL \<Rightarrow> URL \<Rightarrow> URL" where
  "ResolveReference u ref =
     (let url = ref\<lparr>Scheme := (if Scheme ref = [] then Scheme u else Scheme ref)\<rparr>
      in if Scheme ref \<noteq> [] \<or> Host ref \<noteq> [] \<or> User ref \<noteq> None
         then url\<lparr>Path := resolvePath (Path ref) []\<rparr>
         else if Opaque ref \<noteq> []
         then url\<lparr>User := None, Host := [], Path := []\<rparr>
         else
           let url =
             (if Path ref = [] \<and> \<not> ForceQuery ref \<and> RawQuery ref = []
              then url\<lparr>RawQuery := RawQuery u,
                       Fragment := (if Fragment ref = [] then Fragment u else Fragment url)\<rparr>
              else url)
           in url\<lparr>Host := Host u, User := User u,
                  Path := resolvePath (Path u) (Path ref)\<rparr>)"

text \<open>
  \<^verbatim>\<open>func (u *URL) String() string\<close>: scheme, \<^verbatim>\<open>//\<close>, user information, host, path,
  query and fragment, for components that need no percent-escaping.
\<close>

definition URL_String :: "URL \<Rightarrow> string" where
  "URL_String u =
     (if Scheme u \<noteq> [] then Scheme u @ '':'' else [])
     @ (if Opaque u \<noteq> [] then Opaque u
        else
          (let auth =
             (if Scheme u \<noteq> [] \<or> Host u \<noteq> [] \<or> User u \<noteq> None
              then (if Host u \<noteq> [] \<or> Path u \<noteq> [] \<or> User u \<noteq> None then ''//'' else [])
                   @ (case User u of None \<Rightarrow> [] | Some ui \<Rightarrow> ui @ ''@'')
                   @ Host u
              else []);
               buf = (if Scheme u \<noteq> [] then Scheme u @ '':'' else []) @ auth
           in auth
              @ (if Path u \<noteq> [] \<and> hd (Path u) \<noteq> CHR ''/'' \<and> Host u \<noteq> [] then ''/'' else [])
              @ (if buf = [] \<and> CHR '':'' \<in> set (hd (strings_Split (Path u) CHR ''/''))
                 then ''./'' else [])
              @ Path u))
     @ (if ForceQuery u \<or> RawQuery u \<noteq> [] then ''?'' @ RawQuery u else [])
     @ (if Fragment u \<noteq> [] then ''#'' @ Fragment u else [])"

subsection \<open>Errors, contexts and HTTP messages\<close>

text \<open>
  Go's \<^verbatim>\<open>error\<close> values that the client creates, compares or passes on:
  \<^item> \<open>ErrorString msg\<close>: \<^verbatim>\<open>errors.New(msg)\<close>, and any error of a library identified
    by its message;
  \<^item> \<open>BaseURLTrailingSlash u\<close>:
    \<^verbatim>\<open>fmt.Errorf("BaseURL must have a trailing slash, but %q does not", u)\<close>;
  \<^item> \<open>EOF\<close>: the sentinel \<^verbatim>\<open>io.EOF\<close>;
  \<^item> \<open>Canceled\<close>, \<open>DeadlineExceeded\<close>: \<^verbatim>\<open>context.Canceled\<close>,
    \<^verbatim>\<open>context.DeadlineExceeded\<close>;
  \<^item> \<open>DecodeErrors msgs\<close>: \<^verbatim>\<open>*mapstructure.Error\<close>, the messages of the fields that
    could not be decoded;
  \<^item> \<open>InternalRetrieveError d\<close>, \<open>RetrieveError d\<close>: \<^verbatim>\<open>*internal.RetrieveError\<close> of
    the token endpoint and the \<^verbatim>\<open>*oauth2.RetrieveError\<close> it converts to (the same
    data \<open>d\<close>).
\<close>

datatype error =
    ErrorString string
  | BaseURLTrailingSlash URL
  | EOF
  | Canceled
  | DeadlineExceeded
  | DecodeErrors "string list"
  | InternalRetrieveError string
  | RetrieveError string

text \<open>
  A \<^verbatim>\<open>context.Context\<close> as the client observes it: \<^verbatim>\<open>Err()\<close> is \<^verbatim>\<open>nil\<close> (\<open>None\<close>)
  while the context is live, and the cancellation reason once \<^verbatim>\<open>Done()\<close> is closed.
  A request's context is read once, after the HTTP call has returned, so the value is
  the context's state at that moment.
\<close>

datatype Context = Context (ctx_Err: "error option")

definition ctx_Done :: "Context \<Rightarrow> bool" where
  "ctx_Done ctx = (ctx_Err ctx \<noteq> None)"

text \<open>
  \<^verbatim>\<open>http.Request\<close> and \<^verbatim>\<open>http.Response\<close>. A body is the byte string its reader
  yields. \<^verbatim>\<open>ReqCtx\<close> is the field behind \<^verbatim>\<open>req.Context()\<close>.
\<close>

record Request =
  Method :: string
  ReqURL :: URL
  Header :: "string \<rightharpoonup> string"
  Body :: string
  ReqCtx :: "Context option"

record http_Response =
  StatusCode :: int
  RespBody :: string

text \<open>
  \<^verbatim>\<open>func (r *Request) Context() context.Context\<close>: the request's context, or
  \<^verbatim>\<open>context.Background()\<close> (never done) when none was set.
\<close>

definition Request_Context :: "Request \<Rightarrow> Context option" where
  "Request_Context r = (case ReqCtx r of Some ctx \<Rightarrow> Some ctx | None \<Rightarrow> Some (Context None))"

subsection \<open>Decoded JSON (\<^verbatim>\<open>encoding/json\<close>)\<close>

text \<open>
  The values \<^verbatim>\<open>encoding/json\<close> stores in an \<^verbatim>\<open>interface{}\<close>: \<^verbatim>\<open>nil\<close>, \<^verbatim>\<open>bool\<close>,
  \<^verbatim>\<open>float64\<close>, \<^verbatim>\<open>string\<close>, \<^verbatim>\<open>[]interface{}\<close> and \<^verbatim>\<open>map[string]interface{}\<close>.
  A \<^verbatim>\<open>float64\<close> read from JSON is finite, so it is a rational number. A Go map is a
  list of key-value pairs; the order of the list is the order in which a \<^verbatim>\<open>range\<close>
  over the map visits the keys, which Go leaves unspecified, so theorems hold for
  every order.
\<close>

datatype json =
    JNull
  | JBool bool
  | JNumber rat
  | JString string
  | JArray "json list"
  | JObject "(string \<times> json) list"

type_synonym json_map = "(string \<times> json) list"

subsection \<open>Library functions taken as parameters\<close>

text \<open>
  \<^item> \<open>url_Parse\<close>: \<^verbatim>\<open>url.Parse(rawURL)\<close>.
  \<^item> \<open>json_Decode\<close>: \<^verbatim>\<open>json.NewDecoder(r).Decode(&m)\<close> for a reader that yields a
    byte string with a byte that is not JSON whitespace, and an empty
    \<^verbatim>\<open>map[string]interface{}\<close> \<open>m\<close>: the map decoded, or the error.
  \<^item> \<open>MatchName\<close>: the key comparison \<^verbatim>\<open>mapstructure\<close> falls back to when a map has
    no key equal to a field's name (\<^verbatim>\<open>strings.EqualFold\<close> unless configured).
\<close>

record Env =
  url_Parse :: "string \<Rightarrow> error + URL"
  json_Decode :: "string \<Rightarrow> error + json_map"
  MatchName :: "string \<Rightarrow> string \<Rightarrow> bool"

text \<open>\<^verbatim>\<open>func (u *URL) Parse(ref string) (*URL, error)\<close>.\<close>

definition URL_Parse :: "Env \<Rightarrow> URL \<Rightarrow> string \<Rightarrow> error + URL" where
  "URL_Parse env u ref =
     (case url_Parse env ref of
        Inl err \<Rightarrow> Inl err
      | Inr refURL \<Rightarrow> Inr (ResolveReference u refURL))"

subsection \<open>Form values (\<^verbatim>\<open>url.Values\<close>)\<close>

text \<open>
  \<^verbatim>\<open>type Values map[string][]string\<close>, as a list of pairs with distinct keys.
  \<^verbatim>\<open>Get\<close> reads the first value of a key, \<^verbatim>\<open>Set\<close> replaces the values of a key
  and \<^verbatim>\<open>Add\<close> appends one.
\<close>

type_synonym Values = "(string \<times> string list) list"

definition Values_Get :: "Values \<Rightarrow> string \<Rightarrow> string" where
  "Values_Get v k = (case map_of v k of None \<Rightarrow> [] | Some [] \<Rightarrow> [] | Some (x # _) \<Rightarrow> x)"

fun Values_Set :: "Values \<Rightarrow> string \<Rightarrow> string \<Rightarrow> Values" where
  "Values_Set [] k x = [(k, [x])]"
| "Values_Set ((k', xs) # v) k x =
     (if k' = k then (k, [x]) # v else (k', xs) # Values_Set v k x)"

fun Values_Add :: "Values \<Rightarrow> string \<Rightarrow> string \<Rightarrow> Values" where
  "Values_Add [] k x = [(k, [x])]"
| "Values_Add ((k', xs) # v) k x =
     (if k' = k then (k, xs @ [x]) # v else (k', xs) # Values_Add v k x)"

text \<open>
  \<^verbatim>\<open>url.QueryEscape(s)\<close>: letters, digits and \<^verbatim>\<open>- _ . ~\<close> stay, a space becomes
  \<^verbatim>\<open>+\<close>, every other byte becomes \<^verbatim>\<open>%XX\<close> in upper-case hexadecimal.
\<close>

definition shouldEscape_query :: "char \<Rightarrow> bool" where
  "shouldEscape_query c =
     (let n = (of_char c :: nat)
      in \<not> ((97 \<le> n \<and> n \<le> 122) \<or> (65 \<le> n \<and> n \<le> 90) \<or> (48 \<le> n \<and> n \<le> 57)
             \<or> c = CHR ''-'' \<or> c = CHR ''_'' \<or> c = CHR ''.'' \<or> c = CHR ''~''))"

definition escape_byte :: "char \<Rightarrow> string" where
  "escape_byte c =
     (if c = CHR '' '' then ''+''
      else if shouldEscape_query c
      then [CHR ''%'',
            ''0123456789ABCDEF'' ! ((of_char c :: nat) div 16),
            ''0123456789ABCDEF'' ! ((of_char c :: nat) mod 16)]
      else [c])"

definition QueryEscape :: "string \<Rightarrow> string" where
  "QueryEscape s = concat (map escape_byte s)"

text \<open>
  \<^verbatim>\<open>func (v Values) Encode() string\<close>: the keys sorted bytewise, and for each key its
  values in order, as \<^verbatim>\<open>key=value\<close> pairs joined by \<^verbatim>\<open>&\<close>.
\<close>

definition Values_Encode :: "Values \<Rightarrow> string" where
  "Values_Encode v =
     strings_Join
       (concat (map (\<lambda>k. map (\<lambda>x. QueryEscape k @ ''='' @ QueryEscape x)
                              (case map_of v k of None \<Rightarrow> [] | Some vs \<Rightarrow> vs))
                    (sort (remdups (map fst v)))))
       ''&''"

subsection \<open>Times (\<^verbatim>\<open>time.Time\<close>)\<close>

text \<open>
  A \<^verbatim>\<open>time.Time\<close>: the seconds since the Unix epoch that \<^verbatim>\<open>Unix()\<close> reports, the
  nanoseconds within the second, and the offset from UTC (in seconds) of the time's
  location at that instant. The zero \<^verbatim>\<open>Time\<close> is January 1 of year 1, 00:00:00 UTC,
  which is 62135596800 seconds before the epoch.
\<close>

record Time =
  unixSec :: int
  nsec :: nat
  zoneOffset :: int


definition Time_IsZero :: "Time \<Rightarrow> bool" where
  "Time_IsZero t = (unixSec t + 62135596800 = 0 \<and> nsec t = 0)"

definition Time_Unix :: "Time \<Rightarrow> int" where
  "Time_Unix t = unixSec t"

text \<open>
  \<^verbatim>\<open>appendInt(b, x, width)\<close> of package \<^verbatim>\<open>time\<close>: the decimal digits of \<^verbatim>\<open>x\<close>,
  padded with zeros to \<^verbatim>\<open>width\<close>, after a minus sign when \<^verbatim>\<open>x\<close> is negative.
\<close>

definition appendInt :: "int \<Rightarrow> nat \<Rightarrow> string" where
  "appendInt x width =
     (let ds = decimal_digits \<bar>x\<bar>
      in (if x < 0 then ''-'' else []) @ replicate (width - length ds) CHR ''0'' @ ds)"

text \<open>
  \<^verbatim>\<open>t.Format("2006-01-02")\<close>: year, month and day of the proleptic Gregorian
  calendar in the time's location. The civil date is computed from the day number.
\<close>

definition civil_from_days :: "int \<Rightarrow> int \<times> int \<times> int" where
  "civil_from_days days =
     (let z = days + 719468;
          era = z div 146097;
          doe = z mod 146097;
          yoe = (doe - doe div 1460 + doe div 36524 - doe div 146096) div 365;
          doy = doe - (365 * yoe + yoe div 4 - yoe div 100);
          mp = (5 * doy + 2) div 153;
          d = doy - (153 * mp + 2) div 5 + 1;
          m = (if mp < 10 then mp + 3 else mp - 9);
          y = yoe + era * 400 + (if m \<le> 2 then 1 else 0)
      in (y, m, d))"

definition Time_Format_ymd :: "Time \<Rightarrow> string" where
  "Time_Format_ymd t =
     (case civil_from_days ((unixSec t + zoneOffset t) div 86400) of
        (y, m, d) \<Rightarrow> appendInt y 4 @ ''-'' @ appendInt m 2 @ ''-'' @ appendInt d 2)"

subsection \<open>Building a request (\<^verbatim>\<open>net/http\<close>)\<close>

text \<open>
  \<^verbatim>\<open>validMethod\<close>: a method is a non-empty string of HTTP token characters
  (letters, digits and \<^verbatim>\<open>! # $ % & ' * + - . ^ _ ` | ~\<close>).
\<close>

definition isTokenChar :: "char \<Rightarrow> bool" where
  "isTokenChar c =
     (let n = (of_char c :: nat)
      in (48 \<le> n \<and> n \<le> 57) \<or> (65 \<le> n \<and> n \<le> 90) \<or> (97 \<le> n \<and> n \<le> 122)
         \<or> n \<in> {33, 35, 36, 37, 38, 39, 42, 43, 45, 46, 94, 95, 96, 124, 126})"

definition validMethod :: "string \<Rightarrow> bool" where
  "validMethod m = (length m > 0 \<and> list_all isTokenChar m)"

text \<open>
  \<^verbatim>\<open>removeEmptyPort(host)\<close>: a host that ends in a colon with no port after it
  loses the colon.
\<close>

definition removeEmptyPort :: "string \<Rightarrow> string" where
  "removeEmptyPort host =
     (if strings_LastIndexByte host CHR '':'' > strings_LastIndexByte host CHR '']''
      then strings_TrimSuffix host '':'' else host)"

text \<open>
  \<^verbatim>\<open>http.NewRequestWithContext(ctx, method, url, body)\<close>:
  \<^verbatim>\<open>
  if method == "" { method = "GET" }
  if !validMethod(method) { return nil, fmt.Errorf("net/http: invalid method %q", method) }
  if ctx == nil { return nil, errors.New("net/http: nil Context") }
  u, err := urlpkg.Parse(url)
  if err != nil { return nil, err }
  u.Host = removeEmptyPort(u.Host)
  req := &Request{ctx: ctx, Method: method, URL: u, Header: make(Header), Body: rc, ...}
  \<close>
  The message of the first error is kept without the quoted method.
\<close>

definition http_NewRequestWithContext ::
  "Env \<Rightarrow> Context option \<Rightarrow> string \<Rightarrow> string \<Rightarrow> string \<Rightarrow> error + Request" where
  "http_NewRequestWithContext env ctx method url body =
     (let method = (if method = [] then ''GET'' else method)
      in if \<not> validMethod method then Inl (ErrorString ''net/http: invalid method'')
         else if ctx = None then Inl (ErrorString ''net/http: nil Context'')
         else case url_Parse env url of
                Inl err \<Rightarrow> Inl err
              | Inr u \<Rightarrow>
                  Inr \<lparr>Method = method,
                       ReqURL = u\<lparr>Host := removeEmptyPort (Host u)\<rparr>,
                       Header = Map.empty,
                       Body = body,
                       ReqCtx = ctx\<rparr>)"

section \<open>The API client (withings/withings.go)\<close>

text \<open>
  \<^verbatim>\<open>type Client struct { client *http.Client; BaseURL *url.URL; UserAgent string; ... }\<close>.
  The field \<open>client\<close> is the \<^verbatim>\<open>Do\<close> method of the injected \<^verbatim>\<open>*http.Client\<close>: the
  response, or the transport error. The service handles (\<^verbatim>\<open>Measure\<close>, \<^verbatim>\<open>Heart\<close>,
  \<^verbatim>\<open>Sleep\<close>, \<^verbatim>\<open>Notify\<close>) all point back to the client, so a service method takes
  the client itself.
\<close>

record Client =
  client :: "Request \<Rightarrow> error + http_Response"
  BaseURL :: URL
  UserAgent :: string

text \<open>
  \<^verbatim>\<open>type Response struct { HttpResponse *http.Response; Status int; More bool; Offset int }\<close>
  and \<^verbatim>\<open>newResponse\<close>, which leaves \<^verbatim>\<open>Status\<close>, \<^verbatim>\<open>More\<close> and \<^verbatim>\<open>Offset\<close> at their zero
  values.
\<close>

record Response =
  HttpResponse :: http_Response
  Status :: int
  More :: bool
  Offset :: int

definition newResponse :: "http_Response \<Rightarrow> Response" where
  "newResponse r = \<lparr>HttpResponse = r, Status = 0, More = False, Offset = 0\<rparr>"

text \<open>
  \<^verbatim>\<open>
  func (c *Client) NewRequest(ctx context.Context, method string, urlStr string,
          body io.Reader) (*http.Request, error) {
      if !strings.HasSuffix(c.BaseURL.Path, "/") {
          return nil, fmt.Errorf("BaseURL must have a trailing slash, but %q does not", c.BaseURL)
      }
      u, err := c.BaseURL.Parse(urlStr)
      if err != nil { return nil, err }
      req, err := http.NewRequestWithContext(ctx, method, u.String(), body)
      if err != nil { return nil, err }
      if c.UserAgent != "" { req.Header.Set("User-Agent", c.UserAgent) }
      return req, nil
  }
  \<close>
\<close>

definition NewRequest ::
  "Env \<Rightarrow> Client \<Rightarrow> Context option \<Rightarrow> string \<Rightarrow> string \<Rightarrow> string \<Rightarrow> error + Request" where
  "NewRequest env c ctx method urlStr body =
     (if \<not> strings_HasSuffix (Path (BaseURL c)) ''/''
      then Inl (BaseURLTrailingSlash (BaseURL c))
      else case URL_Parse env (BaseURL c) urlStr of
             Inl err \<Rightarrow> Inl err
           | Inr u \<Rightarrow>
               (case http_NewRequestWithContext env ctx method (URL_String u) body of
                  Inl err \<Rightarrow> Inl err
                | Inr req \<Rightarrow>
                    Inr (if UserAgent c \<noteq> []
                         then req\<lparr>Header := (Header req)(''User-Agent'' \<mapsto> UserAgent c)\<rparr>
                         else req)))"

definition errNonNilContext :: error where
  "errNonNilContext = ErrorString ''context must be non-nil''"

text \<open>
  \<^verbatim>\<open>
  func (c *Client) BareDo(req *http.Request) (*Response, error) {
      if req.Context() == nil { return nil, errNonNilContext }
      resp, err := c.client.Do(req)
      if err != nil {
          select {
          case <-req.Context().Done():
              return nil, req.Context().Err()
          default:
          }
          return nil, err
      }
      response := newResponse(resp)
      return response, err
  }
  \<close>
  The result is the pair the function returns, together with the list of requests
  handed to the HTTP client, so that "no request was issued" can be stated. The
  \<^verbatim>\<open>select\<close> with a \<^verbatim>\<open>default\<close> branch does not block: it takes the first branch
  exactly when \<^verbatim>\<open>Done()\<close> is closed, that is when \<^verbatim>\<open>Err()\<close> is not \<^verbatim>\<open>nil\<close>.
\<close>

definition BareDo :: "Client \<Rightarrow> Request \<Rightarrow> (Response option \<times> error option) \<times> Request list" where
  "BareDo c req =
     (case Request_Context req of
        None \<Rightarrow> ((None, Some errNonNilContext), [])
      | Some ctx \<Rightarrow>
          (case client c req of
             Inl err \<Rightarrow>
               (if ctx_Done ctx then ((None, ctx_Err ctx), [req])
                else ((None, Some err), [req]))
           | Inr resp \<Rightarrow> ((Some (newResponse resp), None), [req])))"

subsection \<open>Decoding the envelope (\<^verbatim>\<open>mapstructure\<close>)\<close>

text \<open>
  \<^verbatim>\<open>
  type apiResponse struct {
      Status int `json:"status"`
      Body struct {
          More   bool `json:"more"`
          Offset int  `json:"offset"`
      } `json:"body"`
  }
  \<close>
\<close>

record apiResponseBody =
  body_More :: bool
  body_Offset :: int

record apiResponse =
  api_Status :: int
  api_Body :: apiResponseBody

definition apiResponse_zero :: apiResponse where
  "apiResponse_zero = \<lparr>api_Status = 0, api_Body = \<lparr>body_More = False, body_Offset = 0\<rparr>\<rparr>"

text \<open>
  \<^verbatim>\<open>decode(input, output)\<close> runs a \<^verbatim>\<open>mapstructure\<close> decoder with \<^verbatim>\<open>TagName: "json"\<close>
  and every other option at its default (no weak typing, unused keys ignored). What
  the decoder does for a struct with \<^verbatim>\<open>int\<close>, \<^verbatim>\<open>bool\<close> and struct fields:
  \<^item> a field's value is looked up under its tag name; when the map has no such key,
    the first key (in the map's iteration order) that \<^verbatim>\<open>MatchName\<close> accepts is used;
    when there is none, the field is left as it is;
  \<^item> a \<^verbatim>\<open>nil\<close> value leaves the field as it is;
  \<^item> an \<^verbatim>\<open>int\<close> field takes a \<^verbatim>\<open>float64\<close> by the conversion \<^verbatim>\<open>int64(f)\<close>, which
    truncates towards zero (for a value outside the 64-bit range Go leaves the result
    to the implementation; the model keeps the mathematical truncation), and refuses
    every other kind;
  \<^item> a \<^verbatim>\<open>bool\<close> field takes a \<^verbatim>\<open>bool\<close> and refuses every other kind;
  \<^item> a struct field takes a map, decoded field by field, and refuses every other kind;
  \<^item> the errors of all fields are collected; the decoder returns them as one
    \<^verbatim>\<open>*mapstructure.Error\<close>, or \<^verbatim>\<open>nil\<close> when there is none.
  The error messages are abbreviated to the field's name and the expected type.
\<close>

definition float64_to_int :: "rat \<Rightarrow> int" where
  "float64_to_int f = (if 0 \<le> f then \<lfloor>f\<rfloor> else \<lceil>f\<rceil>)"

definition lookup_field :: "Env \<Rightarrow> json_map \<Rightarrow> string \<Rightarrow> json option" where
  "lookup_field env m fieldName =
     (case map_of m fieldName of
        Some v \<Rightarrow> Some v
      | None \<Rightarrow>
          (case find (\<lambda>kv. MatchName env (fst kv) fieldName) m of
             Some kv \<Rightarrow> Some (snd kv)
           | None \<Rightarrow> None))"

definition decodeInt :: "string \<Rightarrow> json \<Rightarrow> int \<Rightarrow> int \<times> string list" where
  "decodeInt name data val =
     (case data of
        JNull \<Rightarrow> (val, [])
      | JNumber f \<Rightarrow> (float64_to_int f, [])
      | _ \<Rightarrow> (val, [name @ '': expected type int'']))"

definition decodeBool :: "string \<Rightarrow> json \<Rightarrow> bool \<Rightarrow> bool \<times> string list" where
  "decodeBool name data val =
     (case data of
        JNull \<Rightarrow> (val, [])
      | JBool b \<Rightarrow> (b, [])
      | _ \<Rightarrow> (val, [name @ '': expected type bool'']))"

definition decode_apiResponseBody ::
  "Env \<Rightarrow> string \<Rightarrow> json \<Rightarrow> apiResponseBody \<Rightarrow> apiResponseBody \<times> string list" where
  "decode_apiResponseBody env name data val =
     (case data of
        JNull \<Rightarrow> (val, [])
      | JObject m \<Rightarrow>
          (let more =
                 (case lookup_field env m ''more'' of
                    None \<Rightarrow> (body_More val, [])
                  | Some d \<Rightarrow> decodeBool (name @ ''.more'') d (body_More val));
               offset =
                 (case lookup_field env m ''offset'' of
                    None \<Rightarrow> (body_Offset val, [])
                  | Some d \<Rightarrow> decodeInt (name @ ''.offset'') d (body_Offset val))
           in (\<lparr>body_More = fst more, body_Offset = fst offset\<rparr>, snd more @ snd offset))
      | _ \<Rightarrow> (val, [name @ '': expected a map'']))"

definition decode_apiResponse ::
  "Env \<Rightarrow> json_map \<Rightarrow> apiResponse \<Rightarrow> apiResponse \<times> error option" where
  "decode_apiResponse env input val =
     (let status =
            (case lookup_field env input ''status'' of
               None \<Rightarrow> (api_Status val, [])
             | Some d \<Rightarrow> decodeInt ''status'' d (api_Status val));
          body =
            (case lookup_field env input ''body'' of
               None \<Rightarrow> (api_Body val, [])
             | Some d \<Rightarrow> decode_apiResponseBody env ''body'' d (api_Body val));
          errors = snd status @ snd body
      in (\<lparr>api_Status = fst status, api_Body = fst body\<rparr>,
          if errors = [] then None else Some (DecodeErrors errors)))"

subsection \<open>\<^verbatim>\<open>Do\<close> and \<^verbatim>\<open>PostForm\<close>\<close>

text \<open>
  \<^verbatim>\<open>json.NewDecoder(resp.HttpResponse.Body).Decode(&body)\<close> with
  \<^verbatim>\<open>body := map[string]interface{}{}\<close>. The decoder reads the next JSON value
  from its input. When the input ends before a value has begun, its \<^verbatim>\<open>readValue\<close>
  returns the reader's \<^verbatim>\<open>io.EOF\<close> as it is:
  \<^verbatim>\<open>
  if err == io.EOF {
      if dec.scan.step(&dec.scan, ' ') == scanEnd { break Input }
      if nonSpace(dec.buf) { err = io.ErrUnexpectedEOF }
  }
  dec.err = err
  return 0, err
  \<close>
  So an input that is empty, or holds only JSON whitespace (space, tab, carriage
  return, line feed), yields \<^verbatim>\<open>io.EOF\<close> and leaves the map as it is. On any other
  input the outcome is the parameter \<open>json_Decode\<close>. The result is the map after
  the call and the error.
\<close>

definition json_isSpace :: "char \<Rightarrow> bool" where
  "json_isSpace c = (c = CHR '' '' \<or> c = CHR 0x09 \<or> c = CHR 0x0D \<or> c = CHR 0x0A)"

definition json_Decoder_Decode :: "Env \<Rightarrow> string \<Rightarrow> json_map \<Rightarrow> json_map \<times> error option" where
  "json_Decoder_Decode env bytes m =
     (if list_all json_isSpace bytes then (m, Some EOF)
      else case json_Decode env bytes of
             Inl err \<Rightarrow> (m, Some err)
           | Inr decoded \<Rightarrow> (decoded, None))"

text \<open>
  \<^verbatim>\<open>
  func (c *Client) Do(req *http.Request, v interface{}) (*Response, error) {
      resp, err := c.BareDo(req)
      if err != nil { return resp, err }
      defer resp.HttpResponse.Body.Close()
      body := map[string]interface{}{}
      err = json.NewDecoder(resp.HttpResponse.Body).Decode(&body)
      if err != nil && err != io.EOF { return resp, err }
      var apiResp apiResponse
      err = decode(body, &apiResp)
      if err != nil { return resp, err }
      err = decode(body, v)
      if err != nil { return resp, err }
      resp.Status = apiResp.Status
      resp.More = apiResp.Body.More
      resp.Offset = apiResp.Body.Offset
      return resp, err
  }
  \<close>
  The target \<^verbatim>\<open>v\<close> is any value of the caller's; \<open>decode_v\<close> is \<^verbatim>\<open>decode(\<cdot>, v)\<close>
  for it: given the decoded map and the target's current value, the target's new value
  and the error (for a \<^verbatim>\<open>v\<close> that is \<^verbatim>\<open>nil\<close> or not a pointer, always an error). The
  result holds the two values \<^verbatim>\<open>Do\<close> returns, the target after the call, and the
  requests handed to the HTTP client. \<^verbatim>\<open>BareDo\<close> never returns \<^verbatim>\<open>(nil, nil)\<close>; the
  second case below stands for that impossible return, on which the source would
  dereference \<^verbatim>\<open>nil\<close>.
\<close>

record 'v Outcome =
  out_Response :: "Response option"
  out_Err :: "error option"
  out_Target :: 'v
  out_Sent :: "Request list"

definition Do ::
  "Env \<Rightarrow> (json_map \<Rightarrow> 'v \<Rightarrow> 'v \<times> error option) \<Rightarrow> Client \<Rightarrow> Request \<Rightarrow> 'v \<Rightarrow> 'v Outcome" where
  "Do env decode_v c req v =
     (case BareDo c req of
        ((resp, Some err), sent) \<Rightarrow>
          \<lparr>out_Response = resp, out_Err = Some err, out_Target = v, out_Sent = sent\<rparr>
      | ((None, None), sent) \<Rightarrow>
          \<lparr>out_Response = None, out_Err = None, out_Target = v, out_Sent = sent\<rparr>
      | ((Some resp, None), sent) \<Rightarrow>
          (case json_Decoder_Decode env (RespBody (HttpResponse resp)) [] of
             (body, err) \<Rightarrow>
               if err \<noteq> None \<and> err \<noteq> Some EOF
               then \<lparr>out_Response = Some resp, out_Err = err, out_Target = v, out_Sent = sent\<rparr>
               else
                 (case decode_apiResponse env body apiResponse_zero of
                    (apiResp, Some err) \<Rightarrow>
                      \<lparr>out_Response = Some resp, out_Err = Some err,
                       out_Target = v, out_Sent = sent\<rparr>
                  | (apiResp, None) \<Rightarrow>
                      (case decode_v body v of
                         (v', Some err) \<Rightarrow>
                           \<lparr>out_Response = Some resp, out_Err = Some err,
                            out_Target = v', out_Sent = sent\<rparr>
                       | (v', None) \<Rightarrow>
                           \<lparr>out_Response =
                              Some (resp\<lparr>Status := api_Status apiResp,
                                         More := body_More (api_Body apiResp),
                                         Offset := body_Offset (api_Body apiResp)\<rparr>),
                            out_Err = None, out_Target = v', out_Sent = sent\<rparr>))))"

text \<open>
  \<^verbatim>\<open>
  func (c *Client) PostForm(ctx context.Context, url string, data url.Values,
          v interface{}) (resp *Response, err error) {
      req, err := c.NewRequest(ctx, http.MethodPost, url, strings.NewReader(data.Encode()))
      if err != nil { return nil, err }
      req.Header.Set("Content-Type", "application/x-www-form-urlencoded")
      return c.Do(req, v)
  }
  \<close>
\<close>

definition PostForm ::
  "Env \<Rightarrow> (json_map \<Rightarrow> 'v \<Rightarrow> 'v \<times> error option) \<Rightarrow> Client \<Rightarrow> Context option \<Rightarrow> string
     \<Rightarrow> Values \<Rightarrow> 'v \<Rightarrow> 'v Outcome" where
  "PostForm env decode_v c ctx url data v =
     (case NewRequest env c ctx ''POST'' url (Values_Encode data) of
        Inl err \<Rightarrow>
          \<lparr>out_Response = None, out_Err = Some err, out_Target = v, out_Sent = []\<rparr>
      | Inr req \<Rightarrow>
          Do env decode_v c
             (req\<lparr>Header := (Header req)(''Content-Type'' \<mapsto> ''application/x-www-form-urlencoded'')\<rparr>)
             v)"

section \<open>The measure service (withings/measure.go)\<close>

subsection \<open>Measure types\<close>

text \<open>
  \<^verbatim>\<open>type MeasureType int\<close>. Go's \<^verbatim>\<open>int\<close> is modelled by \<^typ>\<open>int\<close>: the code only
  compares measure types and prints them in decimal, so no arithmetic can overflow.
\<close>

type_synonym MeasureType = int

definition MeasureTypeWeight :: MeasureType where "MeasureTypeWeight = 1"
definition MeasureTypeHeight :: MeasureType where "MeasureTypeHeight = 4"
definition MeasureTypeFatFreeMass :: MeasureType where "MeasureTypeFatFreeMass = 5"
definition MeasureTypeFatRatio :: MeasureType where "MeasureTypeFatRatio = 6"
definition MeasureTypeFatMassWeight :: MeasureType where "MeasureTypeFatMassWeight = 8"
definition MeasureTypeDiastolicBP :: MeasureType where "MeasureTypeDiastolicBP = 9"
definition MeasureTypeSystolicBP :: MeasureType where "MeasureTypeSystolicBP = 10"
definition MeasureTypeHeartPulse :: MeasureType where "MeasureTypeHeartPulse = 11"
definition MeasureTypeTemp :: MeasureType where "MeasureTypeTemp = 12"
definition MeasureTypeSpO2 :: MeasureType where "MeasureTypeSpO2 = 54"
definition MeasureTypeBodyTemp :: MeasureType where "MeasureTypeBodyTemp = 71"
definition MeasureTypeSkinTemp :: MeasureType where "MeasureTypeSkinTemp = 73"
definition MeasureTypeMuscleMass :: MeasureType where "MeasureTypeMuscleMass = 76"
definition MeasureTypeHydration :: MeasureType where "MeasureTypeHydration = 77"
definition MeasureTypeBoneMass :: MeasureType where "MeasureTypeBoneMass = 88"
definition MeasureTypePWaveVel :: MeasureType where "MeasureTypePWaveVel = 91"
definition MeasureTypeVO2Max :: MeasureType where "MeasureTypeVO2Max = 123"
definition MeasureTypeQRSInterval :: MeasureType where "MeasureTypeQRSInterval = 135"
definition MeasureTypePRInterval :: MeasureType where "MeasureTypePRInterval = 136"
definition MeasureTypeQTInterval :: MeasureType where "MeasureTypeQTInterval = 137"
definition MeasureTypeCorrQTInterval :: MeasureType where "MeasureTypeCorrQTInterval = 138"
definition MeasureTypeAtrialFib :: MeasureType where "MeasureTypeAtrialFib = 139"

text \<open>
  \<^verbatim>\<open>var validMeasureTypeValues = map[MeasureType]struct{}{...}\<close>: a Go map used as a
  set; the value type \<^verbatim>\<open>struct{}\<close> is \<^typ>\<open>unit\<close>.
\<close>

definition validMeasureTypeValues :: "MeasureType \<rightharpoonup> unit" where
  "validMeasureTypeValues = map_of
     [(MeasureTypeWeight, ()),
      (MeasureTypeHeight, ()),
      (MeasureTypeFatFreeMass, ()),
      (MeasureTypeFatRatio, ()),
      (MeasureTypeFatMassWeight, ()),
      (MeasureTypeDiastolicBP, ()),
      (MeasureTypeSystolicBP, ()),
      (MeasureTypeHeartPulse, ()),
      (MeasureTypeTemp, ()),
      (MeasureTypeSpO2, ()),
      (MeasureTypeBodyTemp, ()),
      (MeasureTypeSkinTemp, ()),
      (MeasureTypeMuscleMass, ()),
      (MeasureTypeHydration, ()),
      (MeasureTypeBoneMass, ()),
      (MeasureTypePWaveVel, ()),
      (MeasureTypeVO2Max, ()),
      (MeasureTypeQRSInterval, ()),
      (MeasureTypePRInterval, ()),
      (MeasureTypeQTInterval, ()),
      (MeasureTypeCorrQTInterval, ()),
      (MeasureTypeAtrialFib, ())]"

text \<open>\<^verbatim>\<open>func (v MeasureType) IsValid() bool { _, ok := validMeasureTypeValues[v]; return ok }\<close>\<close>

definition MeasureType_IsValid :: "MeasureType \<Rightarrow> bool" where
  "MeasureType_IsValid v = (case validMeasureTypeValues v of None \<Rightarrow> False | Some _ \<Rightarrow> True)"

definition AllMeasureTypes :: "MeasureType list" where
  "AllMeasureTypes =
     [MeasureTypeWeight,
      MeasureTypeHeight,
      MeasureTypeFatFreeMass,
      MeasureTypeFatRatio,
      MeasureTypeFatMassWeight,
      MeasureTypeDiastolicBP,
      MeasureTypeSystolicBP,
      MeasureTypeHeartPulse,
      MeasureTypeTemp,
      MeasureTypeSpO2,
      MeasureTypeBodyTemp,
      MeasureTypeSkinTemp,
      MeasureTypeMuscleMass,
      MeasureTypeHydration,
      MeasureTypeBoneMass,
      MeasureTypePWaveVel,
      MeasureTypeVO2Max,
      MeasureTypeQRSInterval,
      MeasureTypePRInterval,
      MeasureTypeQTInterval,
      MeasureTypeCorrQTInterval,
      MeasureTypeAtrialFib]"

text \<open>
  \<^verbatim>\<open>
  func filterValidMeasureTypeValues(values []MeasureType) []MeasureType {
      var validValues []MeasureType
      for _, v := range values {
          if !v.IsValid() { continue }
          validValues = append(validValues, v)
      }
      return validValues
  }
  \<close>
  The loop is a recursion over the remaining input that carries \<^verbatim>\<open>validValues\<close>;
  \<^verbatim>\<open>append\<close> adds at the end. A nil slice and an empty slice are both \<open>[]\<close>: the
  callers only take \<^verbatim>\<open>len\<close> of the result and range over it.
\<close>

fun filterValidMeasureTypeValues_loop ::
  "MeasureType list \<Rightarrow> MeasureType list \<Rightarrow> MeasureType list" where
  "filterValidMeasureTypeValues_loop [] validValues = validValues"
| "filterValidMeasureTypeValues_loop (v # rest) validValues =
     (if \<not> MeasureType_IsValid v
      then filterValidMeasureTypeValues_loop rest validValues
      else filterValidMeasureTypeValues_loop rest (validValues @ [v]))"

definition filterValidMeasureTypeValues :: "MeasureType list \<Rightarrow> MeasureType list" where
  "filterValidMeasureTypeValues vals = filterValidMeasureTypeValues_loop vals []"

subsection \<open>\<^verbatim>\<open>ActivityField\<close>\<close>

text \<open>\<^verbatim>\<open>type ActivityField string\<close>, its values, \<^verbatim>\<open>validActivityFieldValues\<close>, \<^verbatim>\<open>IsValid\<close> and
  \<^verbatim>\<open>AllActivityFields()\<close>.\<close>

type_synonym ActivityField = string

definition ActivityFieldSteps :: ActivityField where "ActivityFieldSteps = ''steps''"
definition ActivityFieldDistance :: ActivityField where "ActivityFieldDistance = ''distance''"
definition ActivityFieldElevation :: ActivityField where "ActivityFieldElevation = ''elevation''"
definition ActivityFieldSoft :: ActivityField where "ActivityFieldSoft = ''soft''"
definition ActivityFieldModerate :: ActivityField where "ActivityFieldModerate = ''moderate''"
definition ActivityFieldIntense :: ActivityField where "ActivityFieldIntense = ''intense''"
definition ActivityFieldActive :: ActivityField where "ActivityFieldActive = ''active''"
definition ActivityFieldCalories :: ActivityField where "ActivityFieldCalories = ''calories''"
definition ActivityFieldTotalCalories :: ActivityField where "ActivityFieldTotalCalories = ''totalcalories''"
definition ActivityFieldHRAverage :: ActivityField where "ActivityFieldHRAverage = ''hr_average''"
definition ActivityFieldHRMin :: ActivityField where "ActivityFieldHRMin = ''hr_min''"
definition ActivityFieldHRMax :: ActivityField where "ActivityFieldHRMax = ''hr_max''"
definition ActivityFieldHRZone0 :: ActivityField where "ActivityFieldHRZone0 = ''hr_zone_0''"
definition ActivityFieldHRZone1 :: ActivityField where "ActivityFieldHRZone1 = ''hr_zone_1''"
definition ActivityFieldHRZone2 :: ActivityField where "ActivityFieldHRZone2 = ''hr_zone_2''"
definition ActivityFieldHRZone3 :: ActivityField where "ActivityFieldHRZone3 = ''hr_zone_3''"

definition validActivityFieldValues :: "ActivityField \<rightharpoonup> unit" where
  "validActivityFieldValues = map_of
     [(ActivityFieldSteps, ()),
      (ActivityFieldDistance, ()),
      (ActivityFieldElevation, ()),
      (ActivityFieldSoft, ()),
      (ActivityFieldModerate, ()),
      (ActivityFieldIntense, ()),
      (ActivityFieldActive, ()),
      (ActivityFieldCalories, ()),
      (ActivityFieldTotalCalories, ()),
      (ActivityFieldHRAverage, ()),
      (ActivityFieldHRMin, ()),
      (ActivityFieldHRMax, ()),
      (ActivityFieldHRZone0, ()),
      (ActivityFieldHRZone1, ()),
      (ActivityFieldHRZone2, ()),
      (ActivityFieldHRZone3, ())]"

definition ActivityField_IsValid :: "ActivityField \<Rightarrow> bool" where
  "ActivityField_IsValid v = (case validActivityFieldValues v of None \<Rightarrow> False | Some _ \<Rightarrow> True)"

definition AllActivityFields :: "ActivityField list" where
  "AllActivityFields =
     [ActivityFieldSteps,
      ActivityFieldDistance,
      ActivityFieldElevation,
      ActivityFieldSoft,
      ActivityFieldModerate,
      ActivityFieldIntense,
      ActivityFieldActive,
      ActivityFieldCalories,
      ActivityFieldTotalCalories,
      ActivityFieldHRAverage,
      ActivityFieldHRMin,
      ActivityFieldHRMax,
      ActivityFieldHRZone0,
      ActivityFieldHRZone1,
      ActivityFieldHRZone2,
      ActivityFieldHRZone3]"

text \<open>\<^verbatim>\<open>filterValidActivityFieldValues\<close>: the same loop as \<^verbatim>\<open>filterValidMeasureTypeValues\<close>.\<close>

fun filterValidActivityFieldValues_loop :: "ActivityField list \<Rightarrow> ActivityField list \<Rightarrow> ActivityField list" where
  "filterValidActivityFieldValues_loop [] validValues = validValues"
| "filterValidActivityFieldValues_loop (v # rest) validValues =
     (if \<not> ActivityField_IsValid v
      then filterValidActivityFieldValues_loop rest validValues
      else filterValidActivityFieldValues_loop rest (validValues @ [v]))"

definition filterValidActivityFieldValues :: "ActivityField list \<Rightarrow> ActivityField list" where
  "filterValidActivityFieldValues vals = filterValidActivityFieldValues_loop vals []"

subsection \<open>\<^verbatim>\<open>IntradayActivityField\<close>\<close>

text \<open>\<^verbatim>\<open>type IntradayActivityField string\<close>, its values, \<^verbatim>\<open>validIntradayActivityFieldValues\<close>, \<^verbatim>\<open>IsValid\<close> and
  \<^verbatim>\<open>AllIntradayActivityFields()\<close>.\<close>

type_synonym IntradayActivityField = string

definition IntradayActivityFieldSteps :: IntradayActivityField where "IntradayActivityFieldSteps = ''steps''"
definition IntradayActivityFieldElevation :: IntradayActivityField where "IntradayActivityFieldElevation = ''elevation''"
definition IntradayActivityFieldCalories :: IntradayActivityField where "IntradayActivityFieldCalories = ''calories''"
definition IntradayActivityFieldDistance :: IntradayActivityField where "IntradayActivityFieldDistance = ''distance''"
definition IntradayActivityFieldStroke :: IntradayActivityField where "IntradayActivityFieldStroke = ''stroke''"
definition IntradayActivityFieldPoolLap :: IntradayActivityField where "IntradayActivityFieldPoolLap = ''pool_lap''"
definition IntradayActivityFieldDuration :: IntradayActivityField where "IntradayActivityFieldDuration = ''duration''"
definition IntradayActivityFieldHeartRate :: IntradayActivityField where "IntradayActivityFieldHeartRate = ''heart_rate''"
definition IntradayActivityFieldSpO2Auto :: IntradayActivityField where "IntradayActivityFieldSpO2Auto = ''spo2_auto''"

definition validIntradayActivityFieldValues :: "IntradayActivityField \<rightharpoonup> unit" where
  "validIntradayActivityFieldValues = map_of
     [(IntradayActivityFieldSteps, ()),
      (IntradayActivityFieldElevation, ()),
      (IntradayActivityFieldCalories, ()),
      (IntradayActivityFieldDistance, ()),
      (IntradayActivityFieldStroke, ()),
      (IntradayActivityFieldPoolLap, ()),
      (IntradayActivityFieldDuration, ()),
      (IntradayActivityFieldHeartRate, ()),
      (IntradayActivityFieldSpO2Auto, ())]"

definition IntradayActivityField_IsValid :: "IntradayActivityField \<Rightarrow> bool" where
  "IntradayActivityField_IsValid v = (case validIntradayActivityFieldValues v of None \<Rightarrow> False | Some _ \<Rightarrow> True)"

definition AllIntradayActivityFields :: "IntradayActivityField list" where
  "AllIntradayActivityFields =
     [IntradayActivityFieldSteps,
      IntradayActivityFieldElevation,
      IntradayActivityFieldCalories,
      IntradayActivityFieldDistance,
      IntradayActivityFieldStroke,
      IntradayActivityFieldPoolLap,
      IntradayActivityFieldDuration,
      IntradayActivityFieldHeartRate,
      IntradayActivityFieldSpO2Auto]"

text \<open>\<^verbatim>\<open>filterValidIntradayActivityFieldValues\<close>: the same loop as \<^verbatim>\<open>filterValidMeasureTypeValues\<close>.\<close>

fun filterValidIntradayActivityFieldValues_loop :: "IntradayActivityField list \<Rightarrow> IntradayActivityField list \<Rightarrow> IntradayActivityField list" where
  "filterValidIntradayActivityFieldValues_loop [] validValues = validValues"
| "filterValidIntradayActivityFieldValues_loop (v # rest) validValues =
     (if \<not> IntradayActivityField_IsValid v
      then filterValidIntradayActivityFieldValues_loop rest validValues
      else filterValidIntradayActivityFieldValues_loop rest (validValues @ [v]))"

definition filterValidIntradayActivityFieldValues :: "IntradayActivityField list \<Rightarrow> IntradayActivityField list" where
  "filterValidIntradayActivityFieldValues vals = filterValidIntradayActivityFieldValues_loop vals []"

subsection \<open>\<^verbatim>\<open>WorkoutField\<close>\<close>

text \<open>\<^verbatim>\<open>type WorkoutField string\<close>, its values, \<^verbatim>\<open>validWorkoutFieldValues\<close>, \<^verbatim>\<open>IsValid\<close> and
  \<^verbatim>\<open>AllWorkoutFields()\<close>.\<close>

type_synonym WorkoutField = string

definition WorkoutFieldCalories :: WorkoutField where "WorkoutFieldCalories = ''calories''"
definition WorkoutFieldIntensity :: WorkoutField where "WorkoutFieldIntensity = ''intensity''"
definition WorkoutFieldManualDistance :: WorkoutField where "WorkoutFieldManualDistance = ''manual_distance''"
definition WorkoutFieldManualCalories :: WorkoutField where "WorkoutFieldManualCalories = ''manual_calories''"
definition WorkoutFieldHRAverage :: WorkoutField where "WorkoutFieldHRAverage = ''hr_average''"
definition WorkoutFieldHRMin :: WorkoutField where "WorkoutFieldHRMin = ''hr_min''"
definition WorkoutFieldHRMax :: WorkoutField where "WorkoutFieldHRMax = ''hr_max''"
definition WorkoutFieldHRZone0 :: WorkoutField where "WorkoutFieldHRZone0 = ''hr_zone_0''"
definition WorkoutFieldHRZone1 :: WorkoutField where "WorkoutFieldHRZone1 = ''hr_zone_1''"
definition WorkoutFieldHRZone2 :: WorkoutField where "WorkoutFieldHRZone2 = ''hr_zone_2''"
definition WorkoutFieldHRZone3 :: WorkoutField where "WorkoutFieldHRZone3 = ''hr_zone_3''"
definition WorkoutFieldPauseDuration :: WorkoutField where "WorkoutFieldPauseDuration = ''pause_duration''"
definition WorkoutFieldAlgoPauseDuration :: WorkoutField where "WorkoutFieldAlgoPauseDuration = ''algo_pause_duration''"
definition WorkoutFieldSpO2Average :: WorkoutField where "WorkoutFieldSpO2Average = ''spo2_average''"
definition WorkoutFieldSteps :: WorkoutField where "WorkoutFieldSteps = ''steps''"
definition WorkoutFieldDistance :: WorkoutField where "WorkoutFieldDistance = ''distance''"
definition WorkoutFieldElevation :: WorkoutField where "WorkoutFieldElevation = ''elevation''"
definition WorkoutFieldPoolLaps :: WorkoutField where "WorkoutFieldPoolLaps = ''pool_laps''"
definition WorkoutFieldStrokes :: WorkoutField where "WorkoutFieldStrokes = ''strokes''"
definition WorkoutFieldPoolLength :: WorkoutField where "WorkoutFieldPoolLength = ''pool_length''"

definition validWorkoutFieldValues :: "WorkoutField \<rightharpoonup> unit" where
  "validWorkoutFieldValues = map_of
     [(WorkoutFieldCalories, ()),
      (WorkoutFieldIntensity, ()),
      (WorkoutFieldManualDistance, ()),
      (WorkoutFieldManualCalories, ()),
      (WorkoutFieldHRAverage, ()),
      (WorkoutFieldHRMin, ()),
      (WorkoutFieldHRMax, ()),
      (WorkoutFieldHRZone0, ()),
      (WorkoutFieldHRZone1, ()),
      (WorkoutFieldHRZone2, ()),
      (WorkoutFieldHRZone3, ()),
      (WorkoutFieldPauseDuration, ()),
      (WorkoutFieldAlgoPauseDuration, ()),
      (WorkoutFieldSpO2Average, ()),
      (WorkoutFieldSteps, ()),
      (WorkoutFieldDistance, ()),
      (WorkoutFieldElevation, ()),
      (WorkoutFieldPoolLaps, ()),
      (WorkoutFieldStrokes, ()),
      (WorkoutFieldPoolLength, ())]"

definition WorkoutField_IsValid :: "WorkoutField \<Rightarrow> bool" where
  "WorkoutField_IsValid v = (case validWorkoutFieldValues v of None \<Rightarrow> False | Some _ \<Rightarrow> True)"

definition AllWorkoutFields :: "WorkoutField list" where
  "AllWorkoutFields =
     [WorkoutFieldCalories,
      WorkoutFieldIntensity,
      WorkoutFieldManualDistance,
      WorkoutFieldManualCalories,
      WorkoutFieldHRAverage,
      WorkoutFieldHRMin,
      WorkoutFieldHRMax,
      WorkoutFieldHRZone0,
      WorkoutFieldHRZone1,
      WorkoutFieldHRZone2,
      WorkoutFieldHRZone3,
      WorkoutFieldPauseDuration,
      WorkoutFieldAlgoPauseDuration,
      WorkoutFieldSpO2Average,
      WorkoutFieldSteps,
      WorkoutFieldDistance,
      WorkoutFieldElevation,
      WorkoutFieldPoolLaps,
      WorkoutFieldStrokes,
      WorkoutFieldPoolLength]"

text \<open>\<^verbatim>\<open>filterValidWorkoutFieldValues\<close>: the same loop as \<^verbatim>\<open>filterValidMeasureTypeValues\<close>.\<close>

fun filterValidWorkoutFieldValues_loop :: "WorkoutField list \<Rightarrow> WorkoutField list \<Rightarrow> WorkoutField list" where
  "filterValidWorkoutFieldValues_loop [] validValues = validValues"
| "filterValidWorkoutFieldValues_loop (v # rest) validValues =
     (if \<not> WorkoutField_IsValid v
      then filterValidWorkoutFieldValues_loop rest validValues
      else filterValidWorkoutFieldValues_loop rest (validValues @ [v]))"

definition filterValidWorkoutFieldValues :: "WorkoutField list \<Rightarrow> WorkoutField list" where
  "filterValidWorkoutFieldValues vals = filterValidWorkoutFieldValues_loop vals []"
subsection \<open>Measure categories and query options\<close>

type_synonym MeasureCategory = int

definition MeasureCategoryRealMeasure :: MeasureCategory where "MeasureCategoryRealMeasure = 1"
definition MeasureCategoryUserObjective :: MeasureCategory where "MeasureCategoryUserObjective = 2"

definition validMeasureCategoryValues :: "MeasureCategory \<rightharpoonup> unit" where
  "validMeasureCategoryValues = map_of
     [(MeasureCategoryRealMeasure, ()),
      (MeasureCategoryUserObjective, ())]"

definition MeasureCategory_IsValid :: "MeasureCategory \<Rightarrow> bool" where
  "MeasureCategory_IsValid v =
     (case validMeasureCategoryValues v of None \<Rightarrow> False | Some _ \<Rightarrow> True)"

text \<open>
  \<^verbatim>\<open>
  type MeasureGetOptions struct {
      // Use StartDate and EndDate for a date range query.
      // Mutually exclusive with LastUpdate!
      StartDate time.Time
      EndDate   time.Time
      // Use LastUpdate to query new values.
      // Mutually exclusive with StartDate and EndDate!
      LastUpdate time.Time
      // Offset retrieves the next batch from the resultset.
      Offset int
  }
  \<close>
  The field \<^verbatim>\<open>Offset\<close> is \<open>OptOffset\<close> here, \<^verbatim>\<open>Response\<close> having an \<open>Offset\<close> too.
\<close>

record MeasureGetOptions =
  StartDate :: Time
  EndDate :: Time
  LastUpdate :: Time
  OptOffset :: int

subsection \<open>The service calls\<close>

text \<open>
  \<^verbatim>\<open>measureTypesToString\<close> prints each measure type with \<^verbatim>\<open>fmt.Sprintf("%d", v)\<close>;
  \<^verbatim>\<open>joinActivityFields\<close>, \<^verbatim>\<open>joinIntradayActivityFields\<close> and \<^verbatim>\<open>joinWorkoutFields\<close>
  convert each field to a string and join the strings with a comma.
\<close>

definition measureTypesToString :: "MeasureType list \<Rightarrow> string list" where
  "measureTypesToString measureTypes = map Sprintf_d measureTypes"

definition joinActivityFields :: "ActivityField list \<Rightarrow> string" where
  "joinActivityFields flds = strings_Join flds '',''"

definition joinIntradayActivityFields :: "IntradayActivityField list \<Rightarrow> string" where
  "joinIntradayActivityFields flds = strings_Join flds '',''"

definition joinWorkoutFields :: "WorkoutField list \<Rightarrow> string" where
  "joinWorkoutFields flds = strings_Join flds '',''"

text \<open>
  A service call returns \<^verbatim>\<open>(nil, nil, err)\<close> when it rejects its arguments, and
  otherwise \<^verbatim>\<open>(&target.Body, resp, err)\<close> with the results of \<^verbatim>\<open>PostForm\<close>, where
  \<^verbatim>\<open>target\<close> is a fresh value of the call's response type. The response types
  (\<^verbatim>\<open>getmeasResponse\<close>, \<^verbatim>\<open>getactivityResponse\<close>, ...) are a type parameter \<open>'v\<close>:
  \<open>zero\<close> is the fresh value and \<open>decode_v\<close> decodes into it. The first result
  is \<open>None\<close> for \<^verbatim>\<open>nil\<close> and the target otherwise. The parameter \<^verbatim>\<open>fields\<close> of
  the source is \<open>flds\<close> here.
\<close>

definition rejected :: "string \<Rightarrow> ('v option) Outcome" where
  "rejected msg =
     \<lparr>out_Response = None, out_Err = Some (ErrorString msg), out_Target = None, out_Sent = []\<rparr>"

definition posted :: "'v Outcome \<Rightarrow> ('v option) Outcome" where
  "posted r =
     \<lparr>out_Response = out_Response r, out_Err = out_Err r,
      out_Target = Some (out_Target r), out_Sent = out_Sent r\<rparr>"

text \<open>
  \<^verbatim>\<open>Getmeas\<close>, from the form literal to the call of \<^verbatim>\<open>PostForm\<close>:
  \<^verbatim>\<open>
  form := url.Values{
      "action":   {"getmeas"},
      "category": {fmt.Sprintf("%d", category)},
  }
  if len(measureTypes) == 1 {
      form.Add("meastype", fmt.Sprintf("%d", measureTypes[0]))
  } else {
      form.Add("meastypes", strings.Join(measureTypesToString(measureTypes), ","))
  }
  if !opts.LastUpdate.IsZero() {
      form.Add("lastupdate", fmt.Sprintf("%d", opts.LastUpdate.Unix()))
  } else if !opts.StartDate.IsZero() && !opts.EndDate.IsZero() {
      form.Add("startdate", fmt.Sprintf("%d", opts.StartDate.Unix()))
      form.Add("enddate", fmt.Sprintf("%d", opts.EndDate.Unix()))
  }
  if opts.Offset > 0 {
      form.Add("offset", fmt.Sprintf("%d", opts.Offset))
  }
  \<close>
\<close>

definition Getmeas_form :: "MeasureType list \<Rightarrow> MeasureCategory \<Rightarrow> MeasureGetOptions \<Rightarrow> Values" where
  "Getmeas_form measureTypes category opts =
     (let form = [(''action'', [''getmeas'']), (''category'', [Sprintf_d category])];
          form =
            (if length measureTypes = 1
             then Values_Add form ''meastype'' (Sprintf_d (measureTypes ! 0))
             else Values_Add form ''meastypes''
                    (strings_Join (measureTypesToString measureTypes) '',''));
          form =
            (if \<not> Time_IsZero (LastUpdate opts)
             then Values_Add form ''lastupdate'' (Sprintf_d (Time_Unix (LastUpdate opts)))
             else if \<not> Time_IsZero (StartDate opts) \<and> \<not> Time_IsZero (EndDate opts)
             then Values_Add
                    (Values_Add form ''startdate'' (Sprintf_d (Time_Unix (StartDate opts))))
                    ''enddate'' (Sprintf_d (Time_Unix (EndDate opts)))
             else form)
      in if OptOffset opts > 0
         then Values_Add form ''offset'' (Sprintf_d (OptOffset opts))
         else form)"

text \<open>
  \<^verbatim>\<open>
  func (s *MeasureService) Getmeas(ctx context.Context, measureTypes []MeasureType,
          category MeasureCategory, opts MeasureGetOptions) (*Measures, *Response, error) {
      // validate category first because it requires less effort
      if !category.IsValid() { return nil, nil, errors.New("invalid category") }
      measureTypes = filterValidMeasureTypeValues(measureTypes)
      if len(measureTypes) == 0 {
          return nil, nil, errors.New("need at least one measure type")
      }
      const urlPath = "measure"
      form := ...
      measuresResp := new(getmeasResponse)
      resp, err := s.client.PostForm(ctx, urlPath, form, measuresResp)
      return &measuresResp.Body, resp, err
  }
  \<close>
\<close>

definition Getmeas ::
  "Env \<Rightarrow> (json_map \<Rightarrow> 'v \<Rightarrow> 'v \<times> error option) \<Rightarrow> 'v \<Rightarrow> Client \<Rightarrow> Context option
     \<Rightarrow> MeasureType list \<Rightarrow> MeasureCategory \<Rightarrow> MeasureGetOptions \<Rightarrow> ('v option) Outcome" where
  "Getmeas env decode_v zero c ctx measureTypes category opts =
     (if \<not> MeasureCategory_IsValid category then rejected ''invalid category''
      else
        let measureTypes = filterValidMeasureTypeValues measureTypes
        in if length measureTypes = 0 then rejected ''need at least one measure type''
           else posted (PostForm env decode_v c ctx ''measure''
                          (Getmeas_form measureTypes category opts) zero))"

text \<open>
  \<^verbatim>\<open>Getactivity\<close> and \<^verbatim>\<open>Getworkouts\<close> build their forms alike, with the dates of a
  range formatted as \<^verbatim>\<open>2006-01-02\<close>:
  \<^verbatim>\<open>
  form := url.Values{
      "action":      {"getactivity"},
      "data_fields": {joinActivityFields(fields)},
  }
  if !opts.LastUpdate.IsZero() {
      form.Add("lastupdate", fmt.Sprintf("%d", opts.LastUpdate.Unix()))
  } else if !opts.StartDate.IsZero() && !opts.EndDate.IsZero() {
      form.Add("startdateymd", opts.StartDate.Format("2006-01-02"))
      form.Add("enddateymd", opts.EndDate.Format("2006-01-02"))
  }
  if opts.Offset > 0 {
      form.Add("offset", fmt.Sprintf("%d", opts.Offset))
  }
  \<close>
\<close>

definition ymd_form :: "string \<Rightarrow> string \<Rightarrow> MeasureGetOptions \<Rightarrow> Values" where
  "ymd_form action data_fields opts =
     (let form = [(''action'', [action]), (''data_fields'', [data_fields])];
          form =
            (if \<not> Time_IsZero (LastUpdate opts)
             then Values_Add form ''lastupdate'' (Sprintf_d (Time_Unix (LastUpdate opts)))
             else if \<not> Time_IsZero (StartDate opts) \<and> \<not> Time_IsZero (EndDate opts)
             then Values_Add
                    (Values_Add form ''startdateymd'' (Time_Format_ymd (StartDate opts)))
                    ''enddateymd'' (Time_Format_ymd (EndDate opts))
             else form)
      in if OptOffset opts > 0
         then Values_Add form ''offset'' (Sprintf_d (OptOffset opts))
         else form)"

definition Getactivity_form :: "ActivityField list \<Rightarrow> MeasureGetOptions \<Rightarrow> Values" where
  "Getactivity_form flds opts = ymd_form ''getactivity'' (joinActivityFields flds) opts"

definition Getworkouts_form :: "WorkoutField list \<Rightarrow> MeasureGetOptions \<Rightarrow> Values" where
  "Getworkouts_form flds opts = ymd_form ''getworkouts'' (joinWorkoutFields flds) opts"

text \<open>
  \<^verbatim>\<open>
  func (s *MeasureService) Getactivity(ctx context.Context, fields []ActivityField,
          opts MeasureGetOptions) (*Activities, *Response, error) {
      fields = filterValidActivityFieldValues(fields)
      if len(fields) == 0 { return nil, nil, errors.New("need at least one activity field") }
      const urlPath = "v2/measure"
      form := ...
      activityResp := new(getactivityResponse)
      resp, err := s.client.PostForm(ctx, urlPath, form, activityResp)
      return &activityResp.Body, resp, err
  }
  \<close>
\<close>

definition Getactivity ::
  "Env \<Rightarrow> (json_map \<Rightarrow> 'v \<Rightarrow> 'v \<times> error option) \<Rightarrow> 'v \<Rightarrow> Client \<Rightarrow> Context option
     \<Rightarrow> ActivityField list \<Rightarrow> MeasureGetOptions \<Rightarrow> ('v option) Outcome" where
  "Getactivity env decode_v zero c ctx flds opts =
     (let flds = filterValidActivityFieldValues flds
      in if length flds = 0 then rejected ''need at least one activity field''
         else posted (PostForm env decode_v c ctx ''v2/measure''
                        (Getactivity_form flds opts) zero))"

text \<open>
  \<^verbatim>\<open>Getintradayactivity\<close> has no \<^verbatim>\<open>lastupdate\<close> and no \<^verbatim>\<open>offset\<close> parameter:
  \<^verbatim>\<open>
  fields = filterValidIntradayActivityFieldValues(fields)
  if len(fields) == 0 {
      return nil, nil, errors.New("need at least one intraday activity data field")
  }
  const urlPath = "v2/measure"
  form := url.Values{
      "action":      {"getintradayactivity"},
      "data_fields": {joinIntradayActivityFields(fields)},
  }
  if !opts.StartDate.IsZero() && !opts.EndDate.IsZero() {
      form.Add("startdate", fmt.Sprintf("%d", opts.StartDate.Unix()))
      form.Add("enddate", fmt.Sprintf("%d", opts.EndDate.Unix()))
  }
  \<close>
\<close>

definition Getintradayactivity_form ::
  "IntradayActivityField list \<Rightarrow> MeasureGetOptions \<Rightarrow> Values" where
  "Getintradayactivity_form flds opts =
     (let form = [(''action'', [''getintradayactivity'']),
                  (''data_fields'', [joinIntradayActivityFields flds])]
      in if \<not> Time_IsZero (StartDate opts) \<and> \<not> Time_IsZero (EndDate opts)
         then Values_Add
                (Values_Add form ''startdate'' (Sprintf_d (Time_Unix (StartDate opts))))
                ''enddate'' (Sprintf_d (Time_Unix (EndDate opts)))
         else form)"

definition Getintradayactivity ::
  "Env \<Rightarrow> (json_map \<Rightarrow> 'v \<Rightarrow> 'v \<times> error option) \<Rightarrow> 'v \<Rightarrow> Client \<Rightarrow> Context option
     \<Rightarrow> IntradayActivityField list \<Rightarrow> MeasureGetOptions \<Rightarrow> ('v option) Outcome" where
  "Getintradayactivity env decode_v zero c ctx flds opts =
     (let flds = filterValidIntradayActivityFieldValues flds
      in if length flds = 0 then rejected ''need at least one intraday activity data field''
         else posted (PostForm env decode_v c ctx ''v2/measure''
                        (Getintradayactivity_form flds opts) zero))"

text \<open>
  \<^verbatim>\<open>Getworkouts\<close>: as \<^verbatim>\<open>Getactivity\<close>, with \<^verbatim>\<open>filterValidWorkoutFieldValues\<close>, the
  message \<^verbatim>\<open>"need at least one workout data field"\<close> and the action \<^verbatim>\<open>getworkouts\<close>.
\<close>

definition Getworkouts ::
  "Env \<Rightarrow> (json_map \<Rightarrow> 'v \<Rightarrow> 'v \<times> error option) \<Rightarrow> 'v \<Rightarrow> Client \<Rightarrow> Context option
     \<Rightarrow> WorkoutField list \<Rightarrow> MeasureGetOptions \<Rightarrow> ('v option) Outcome" where
  "Getworkouts env decode_v zero c ctx flds opts =
     (let flds = filterValidWorkoutFieldValues flds
      in if length flds = 0 then rejected ''need at least one workout data field''
         else posted (PostForm env decode_v c ctx ''v2/measure''
                        (Getworkouts_form flds opts) zero))"

section \<open>OAuth2 (oauth2/config.go)\<close>

subsection \<open>\<^verbatim>\<open>golang.org/x/oauth2\<close>\<close>

text \<open>
  \<^verbatim>\<open>oauth2.Endpoint\<close> and \<^verbatim>\<open>oauth2.Config\<close>. The repository's \<^verbatim>\<open>Config\<close> embeds a
  \<^verbatim>\<open>*oauth2.Config\<close> and nothing else, so both are this record.
  \<^verbatim>\<open>oauth2.AuthStyleInParams\<close> is 1. The field \<^verbatim>\<open>Endpoint\<close> of \<^verbatim>\<open>oauth2.Config\<close> is
  \<open>ConfigEndpoint\<close> here.
\<close>

record Endpoint =
  AuthURL :: string
  TokenURL :: string
  AuthStyle :: int

record Config =
  ClientID :: string
  ClientSecret :: string
  ConfigEndpoint :: Endpoint
  RedirectURL :: string
  Scopes :: "string list"

definition AuthStyleInParams :: int where "AuthStyleInParams = 1"

text \<open>
  An \<^verbatim>\<open>oauth2.AuthCodeOption\<close> has one method, \<^verbatim>\<open>setValue(url.Values)\<close>. The options
  the package offers are all made by \<^verbatim>\<open>SetAuthURLParam(key, value)\<close>, whose
  \<^verbatim>\<open>setValue(m)\<close> is \<^verbatim>\<open>m.Set(key, value)\<close>.
\<close>

datatype AuthCodeOption = SetAuthURLParam string string

fun setValue :: "AuthCodeOption \<Rightarrow> Values \<Rightarrow> Values" where
  "setValue (SetAuthURLParam k x) m = Values_Set m k x"

fun option_key :: "AuthCodeOption \<Rightarrow> string" where
  "option_key (SetAuthURLParam k x) = k"

text \<open>
  \<^verbatim>\<open>func (c *Config) AuthCodeURL(state string, opts ...AuthCodeOption) string\<close> of
  \<^verbatim>\<open>golang.org/x/oauth2\<close>:
  \<^verbatim>\<open>
  var buf bytes.Buffer
  buf.WriteString(c.Endpoint.AuthURL)
  v := url.Values{
      "response_type": {"code"},
      "client_id":     {c.ClientID},
  }
  if c.RedirectURL != "" { v.Set("redirect_uri", c.RedirectURL) }
  if len(c.Scopes) > 0 { v.Set("scope", strings.Join(c.Scopes, " ")) }
  if state != "" { v.Set("state", state) }
  for _, opt := range opts { opt.setValue(v) }
  if strings.Contains(c.Endpoint.AuthURL, "?") { buf.WriteByte('&') } else { buf.WriteByte('?') }
  buf.WriteString(v.Encode())
  return buf.String()
  \<close>
  \<open>oauth2_AuthCodeURL_values\<close> is the parameter set \<^verbatim>\<open>v\<close> that is encoded.
\<close>

fun apply_options :: "AuthCodeOption list \<Rightarrow> Values \<Rightarrow> Values" where
  "apply_options [] v = v"
| "apply_options (opt # opts) v = apply_options opts (setValue opt v)"

definition oauth2_AuthCodeURL_values :: "Config \<Rightarrow> string \<Rightarrow> AuthCodeOption list \<Rightarrow> Values" where
  "oauth2_AuthCodeURL_values c state opts =
     (let v = [(''response_type'', [''code'']), (''client_id'', [ClientID c])];
          v = (if RedirectURL c \<noteq> [] then Values_Set v ''redirect_uri'' (RedirectURL c) else v);
          v = (if length (Scopes c) > 0
               then Values_Set v ''scope'' (strings_Join (Scopes c) '' '') else v);
          v = (if state \<noteq> [] then Values_Set v ''state'' state else v)
      in apply_options opts v)"

definition oauth2_AuthCodeURL :: "Config \<Rightarrow> string \<Rightarrow> AuthCodeOption list \<Rightarrow> string" where
  "oauth2_AuthCodeURL c state opts =
     AuthURL (ConfigEndpoint c)
     @ (if CHR ''?'' \<in> set (AuthURL (ConfigEndpoint c)) then ''&'' else ''?'')
     @ Values_Encode (oauth2_AuthCodeURL_values c state opts)"

subsection \<open>The Withings configuration\<close>

text \<open>
  \<^verbatim>\<open>
  var Endpoint = oauth2.Endpoint{
      AuthURL:   "https://account.withings.com/oauth2_user/authorize2",
      TokenURL:  "https://wbsapi.withings.net/v2/oauth2",
      AuthStyle: oauth2.AuthStyleInParams,
  }
  var ModeDemo = oauth2.SetAuthURLParam("mode", "demo")
  \<close>
\<close>

definition WithingsEndpoint :: Endpoint where
  "WithingsEndpoint =
     \<lparr>AuthURL = ''https://account.withings.com/oauth2_user/authorize2'',
      TokenURL = ''https://wbsapi.withings.net/v2/oauth2'',
      AuthStyle = AuthStyleInParams\<rparr>"

definition ModeDemo :: AuthCodeOption where
  "ModeDemo = SetAuthURLParam ''mode'' ''demo''"

text \<open>
  \<^verbatim>\<open>
  func (c *Config) AuthCodeURL(state string, opts ...oauth2.AuthCodeOption) string {
      if len(c.Scopes) > 0 {
          opts = append([]oauth2.AuthCodeOption{
              oauth2.SetAuthURLParam("scope", strings.Join(c.Scopes, ","))}, opts...)
      }
      return c.Config.AuthCodeURL(state, opts...)
  }
  \<close>
  \<open>AuthCodeURL_options\<close> is the option list handed to the wrapped function and
  \<open>AuthCodeURL_values\<close> the parameter set that function then encodes.
\<close>

definition AuthCodeURL_options :: "Config \<Rightarrow> AuthCodeOption list \<Rightarrow> AuthCodeOption list" where
  "AuthCodeURL_options c opts =
     (if length (Scopes c) > 0
      then [SetAuthURLParam ''scope'' (strings_Join (Scopes c) '','')] @ opts
      else opts)"

definition AuthCodeURL :: "Config \<Rightarrow> string \<Rightarrow> AuthCodeOption list \<Rightarrow> string" where
  "AuthCodeURL c state opts = oauth2_AuthCodeURL c state (AuthCodeURL_options c opts)"

definition AuthCodeURL_values :: "Config \<Rightarrow> string \<Rightarrow> AuthCodeOption list \<Rightarrow> Values" where
  "AuthCodeURL_values c state opts =
     oauth2_AuthCodeURL_values c state (AuthCodeURL_options c opts)"

text \<open>
  Tokens. \<^verbatim>\<open>internal.Token\<close> and \<^verbatim>\<open>oauth2.Token\<close> have the same fields;
  \<^verbatim>\<open>tokenFromInternal\<close> copies them and attaches the raw token response with
  \<^verbatim>\<open>WithExtra\<close>. A \<^verbatim>\<open>nil\<close> token is \<open>None\<close>.
\<close>

record internal_Token =
  int_AccessToken :: string
  int_TokenType :: string
  int_RefreshToken :: string
  int_Expiry :: Time
  int_Raw :: json

record Token =
  AccessToken :: string
  TokenType :: string
  RefreshToken :: string
  Expiry :: Time
  raw :: json

definition tokenFromInternal :: "internal_Token option \<Rightarrow> Token option" where
  "tokenFromInternal t =
     (case t of
        None \<Rightarrow> None
      | Some t \<Rightarrow>
          Some \<lparr>AccessToken = int_AccessToken t,
                TokenType = int_TokenType t,
                RefreshToken = int_RefreshToken t,
                Expiry = int_Expiry t,
                raw = int_Raw t\<rparr>)"

text \<open>
  \<^verbatim>\<open>
  func retrieveToken(ctx context.Context, c *Config, v url.Values) (*oauth2.Token, error) {
      tk, err := internal.RetrieveToken(ctx, c.ClientID, c.ClientSecret, c.Endpoint.TokenURL,
          v, internal.AuthStyle(c.Endpoint.AuthStyle))
      if err != nil {
          if rErr, ok := err.(*internal.RetrieveError); ok {
              return nil, (*oauth2.RetrieveError)(rErr)
          }
          return nil, err
      }
      return tokenFromInternal(tk), nil
  }
  \<close>
  \<^verbatim>\<open>internal.RetrieveToken\<close> posts the form to the token endpoint; its file is not
  among the sources, so it is the parameter \<open>RetrieveToken\<close>.
\<close>

type_synonym RetrieveToken =
  "Context option \<Rightarrow> string \<Rightarrow> string \<Rightarrow> string \<Rightarrow> Values \<Rightarrow> int \<Rightarrow> error + internal_Token option"

definition retrieveToken ::
  "RetrieveToken \<Rightarrow> Context option \<Rightarrow> Config \<Rightarrow> Values \<Rightarrow> error + Token option" where
  "retrieveToken RetrieveToken ctx c v =
     (case RetrieveToken ctx (ClientID c) (ClientSecret c) (TokenURL (ConfigEndpoint c)) v
             (AuthStyle (ConfigEndpoint c)) of
        Inl err \<Rightarrow>
          (case err of
             InternalRetrieveError d \<Rightarrow> Inl (RetrieveError d)
           | _ \<Rightarrow> Inl err)
      | Inr tk \<Rightarrow> Inr (tokenFromInternal tk))"

text \<open>
  \<^verbatim>\<open>
  func (c *Config) Exchange(ctx context.Context, code string) (*oauth2.Token, error) {
      v := url.Values{
          "action":     {"requesttoken"},
          "grant_type": {"authorization_code"},
          "code":       {code},
      }
      if c.RedirectURL != "" {
          v.Set("redirect_uri", c.RedirectURL)
      }
      return retrieveToken(ctx, c, v)
  }
  \<close>
  \<open>Exchange_values\<close> is the form \<^verbatim>\<open>v\<close> at the call of \<^verbatim>\<open>retrieveToken\<close>.
\<close>

definition Exchange_values :: "Config \<Rightarrow> string \<Rightarrow> Values" where
  "Exchange_values c code =
     (let v = [(''action'', [''requesttoken'']),
               (''grant_type'', [''authorization_code'']),
               (''code'', [code])]
      in if RedirectURL c \<noteq> [] then Values_Set v ''redirect_uri'' (RedirectURL c) else v)"

definition Exchange ::
  "RetrieveToken \<Rightarrow> Config \<Rightarrow> Context option \<Rightarrow> string \<Rightarrow> error + Token option" where
  "Exchange RetrieveToken c ctx code = retrieveToken RetrieveToken ctx c (Exchange_values c code)"

section \<open>Well-formed envelopes\<close>












section \<open>Example values\<close>

text \<open>
  Concrete values at which the theorems below are instantiated: a live context,
  times, a configuration, two URLs, library parameters that answer on those inputs,
  and HTTP clients that answer with a fixed response or fail.
\<close>

definition ex_ctx :: "Context option" where
  "ex_ctx = Some (Context None)"

definition ex_time :: Time where
  "ex_time = \<lparr>unixSec = 1700000000, nsec = 0, zoneOffset = 0\<rparr>"

definition ex_opts :: MeasureGetOptions where
  "ex_opts = \<lparr>StartDate = ex_time, EndDate = ex_time, LastUpdate = ex_time, OptOffset = 0\<rparr>"

definition ex_base :: URL where
  "ex_base =
     \<lparr>Scheme = ''https'', Opaque = [], User = None, Host = ''api.example.com'',
      Path = ''/'', ForceQuery = False, RawQuery = [], Fragment = []\<rparr>"

definition ex_ref :: URL where
  "ex_ref =
     \<lparr>Scheme = [], Opaque = [], User = None, Host = [],
      Path = ''v2/resource'', ForceQuery = False, RawQuery = [], Fragment = []\<rparr>"

definition ex_resolved :: URL where
  "ex_resolved = ex_base\<lparr>Path := ''/v2/resource''\<rparr>"

text \<open>
  A URL parser for the examples: it reads an absolute URL on the example host, and
  a relative path without a colon, as \<^verbatim>\<open>url.Parse\<close> does, and refuses the rest.
\<close>

definition ex_url_Parse :: "string \<Rightarrow> error + URL" where
  "ex_url_Parse s =
     (if take 23 s = ''https://api.example.com'' then Inr (ex_base\<lparr>Path := drop 23 s\<rparr>)
      else if CHR '':'' \<in> set s then Inl (ErrorString ''parse'')
      else Inr (ex_ref\<lparr>Path := s\<rparr>))"

text \<open>
  The example body is the JSON text
  \<^verbatim>\<open>{"status":293,"body":{"more":true,"offset":40}}\<close>, and the example JSON decoder
  reads it, and nothing else, into the map that \<^verbatim>\<open>encoding/json\<close> produces for it.
\<close>

definition ex_quoted :: "string \<Rightarrow> string" where
  "ex_quoted s = [CHR 0x22] @ s @ [CHR 0x22]"

definition ex_body :: string where
  "ex_body =
     ''{'' @ ex_quoted ''status'' @ '':293,'' @ ex_quoted ''body'' @ '':{''
     @ ex_quoted ''more'' @ '':true,'' @ ex_quoted ''offset'' @ '':40}}''"

definition ex_envelope :: json_map where
  "ex_envelope =
     [(''status'', JNumber 293),
      (''body'', JObject [(''more'', JBool True), (''offset'', JNumber 40)])]"

definition ex_env :: Env where
  "ex_env =
     \<lparr>url_Parse = ex_url_Parse,
      json_Decode = (\<lambda>s. if s = ex_body then Inr ex_envelope
                           else Inl (ErrorString ''invalid character'')),
      MatchName = (\<lambda>a b. a = b)\<rparr>"

text \<open>
  The example target is a decoded map itself: decoding stores the map, and an empty
  map leaves the target as it is.
\<close>

definition ex_decode_v :: "json_map \<Rightarrow> json_map \<Rightarrow> json_map \<times> error option" where
  "ex_decode_v m v = (if m = [] then (v, None) else (m, None))"

definition ex_client :: "string \<Rightarrow> Client" where
  "ex_client body =
     \<lparr>client = (\<lambda>req. Inr \<lparr>StatusCode = 200, RespBody = body\<rparr>),
      BaseURL = ex_base, UserAgent = ''go-withings''\<rparr>"

definition ex_failing_client :: Client where
  "ex_failing_client =
     \<lparr>client = (\<lambda>req. Inl (ErrorString ''connection refused'')),
      BaseURL = ex_base, UserAgent = ''go-withings''\<rparr>"

definition ex_request :: "Context option \<Rightarrow> Request" where
  "ex_request ctx =
     \<lparr>Method = ''POST'', ReqURL = ex_resolved, Header = Map.empty, Body = [], ReqCtx = ctx\<rparr>"

definition ex_config :: Config where
  "ex_config =
     \<lparr>ClientID = ''id'', ClientSecret = ''secret'', ConfigEndpoint = WithingsEndpoint,
      RedirectURL = ''https://app.example/cb'', Scopes = [''a'', ''b'', ''c'']\<rparr>"

section \<open>Properties\<close>

subsection \<open>The filters\<close>

text \<open>The values of each enumeration, collected for unfolding.\<close>

lemmas MeasureType_consts =
  MeasureTypeWeight_def MeasureTypeHeight_def MeasureTypeFatFreeMass_def
  MeasureTypeFatRatio_def MeasureTypeFatMassWeight_def MeasureTypeDiastolicBP_def
  MeasureTypeSystolicBP_def MeasureTypeHeartPulse_def MeasureTypeTemp_def
  MeasureTypeSpO2_def MeasureTypeBodyTemp_def MeasureTypeSkinTemp_def
  MeasureTypeMuscleMass_def MeasureTypeHydration_def MeasureTypeBoneMass_def
  MeasureTypePWaveVel_def MeasureTypeVO2Max_def MeasureTypeQRSInterval_def
  MeasureTypePRInterval_def MeasureTypeQTInterval_def MeasureTypeCorrQTInterval_def
  MeasureTypeAtrialFib_def

lemmas ActivityField_consts =
  ActivityFieldSteps_def ActivityFieldDistance_def ActivityFieldElevation_def
  ActivityFieldSoft_def ActivityFieldModerate_def ActivityFieldIntense_def
  ActivityFieldActive_def ActivityFieldCalories_def ActivityFieldTotalCalories_def
  ActivityFieldHRAverage_def ActivityFieldHRMin_def ActivityFieldHRMax_def
  ActivityFieldHRZone0_def ActivityFieldHRZone1_def ActivityFieldHRZone2_def
  ActivityFieldHRZone3_def

lemmas IntradayActivityField_consts =
  IntradayActivityFieldSteps_def IntradayActivityFieldElevation_def
  IntradayActivityFieldCalories_def IntradayActivityFieldDistance_def
  IntradayActivityFieldStroke_def IntradayActivityFieldPoolLap_def
  IntradayActivityFieldDuration_def IntradayActivityFieldHeartRate_def
  IntradayActivityFieldSpO2Auto_def

lemmas WorkoutField_consts =
  WorkoutFieldCalories_def WorkoutFieldIntensity_def WorkoutFieldManualDistance_def
  WorkoutFieldManualCalories_def WorkoutFieldHRAverage_def WorkoutFieldHRMin_def
  WorkoutFieldHRMax_def WorkoutFieldHRZone0_def WorkoutFieldHRZone1_def
  WorkoutFieldHRZone2_def WorkoutFieldHRZone3_def WorkoutFieldPauseDuration_def
  WorkoutFieldAlgoPauseDuration_def WorkoutFieldSpO2Average_def WorkoutFieldSteps_def
  WorkoutFieldDistance_def WorkoutFieldElevation_def WorkoutFieldPoolLaps_def
  WorkoutFieldStrokes_def WorkoutFieldPoolLength_def

lemma filterValidMeasureTypeValues_loop_filter:
  "filterValidMeasureTypeValues_loop vals acc = acc @ filter MeasureType_IsValid vals"
  by (induction vals arbitrary: acc) simp_all

lemma filterValidMeasureTypeValues_filter:
  "filterValidMeasureTypeValues vals = filter MeasureType_IsValid vals"
  by (simp add: filterValidMeasureTypeValues_def filterValidMeasureTypeValues_loop_filter)

lemma filterValidActivityFieldValues_loop_filter:
  "filterValidActivityFieldValues_loop vals acc = acc @ filter ActivityField_IsValid vals"
  by (induction vals arbitrary: acc) simp_all

lemma filterValidActivityFieldValues_filter:
  "filterValidActivityFieldValues vals = filter ActivityField_IsValid vals"
  by (simp add: filterValidActivityFieldValues_def filterValidActivityFieldValues_loop_filter)

lemma filterValidIntradayActivityFieldValues_loop_filter:
  "filterValidIntradayActivityFieldValues_loop vals acc
     = acc @ filter IntradayActivityField_IsValid vals"
  by (induction vals arbitrary: acc) simp_all

lemma filterValidIntradayActivityFieldValues_filter:
  "filterValidIntradayActivityFieldValues vals = filter IntradayActivityField_IsValid vals"
  by (simp add: filterValidIntradayActivityFieldValues_def
      filterValidIntradayActivityFieldValues_loop_filter)

lemma filterValidWorkoutFieldValues_loop_filter:
  "filterValidWorkoutFieldValues_loop vals acc = acc @ filter WorkoutField_IsValid vals"
  by (induction vals arbitrary: acc) simp_all

lemma filterValidWorkoutFieldValues_filter:
  "filterValidWorkoutFieldValues vals = filter WorkoutField_IsValid vals"
  by (simp add: filterValidWorkoutFieldValues_def filterValidWorkoutFieldValues_loop_filter)

lemma MeasureType_IsValid_iff:
  "MeasureType_IsValid v \<longleftrightarrow>
     v \<in> {1, 4, 5, 6, 8, 9, 10, 11, 12, 54, 71, 73, 76, 77, 88, 91, 123, 135, 136, 137, 138, 139}"
  by (simp add: MeasureType_IsValid_def validMeasureTypeValues_def MeasureType_consts)

lemma MeasureCategory_IsValid_iff: "MeasureCategory_IsValid v \<longleftrightarrow> v = 1 \<or> v = 2"
  by (simp add: MeasureCategory_IsValid_def validMeasureCategoryValues_def
      MeasureCategoryRealMeasure_def MeasureCategoryUserObjective_def)

lemma ActivityField_IsValid_iff: "ActivityField_IsValid v \<longleftrightarrow> v \<in> set AllActivityFields"
  by (simp add: ActivityField_IsValid_def validActivityFieldValues_def AllActivityFields_def
      ActivityField_consts)

lemma IntradayActivityField_IsValid_iff:
  "IntradayActivityField_IsValid v \<longleftrightarrow> v \<in> set AllIntradayActivityFields"
  by (simp add: IntradayActivityField_IsValid_def validIntradayActivityFieldValues_def
      AllIntradayActivityFields_def IntradayActivityField_consts)

lemma WorkoutField_IsValid_iff: "WorkoutField_IsValid v \<longleftrightarrow> v \<in> set AllWorkoutFields"
  by (simp add: WorkoutField_IsValid_def validWorkoutFieldValues_def AllWorkoutFields_def
      WorkoutField_consts)

lemma AllMeasureTypes_valid: "list_all MeasureType_IsValid AllMeasureTypes"
  by (simp add: AllMeasureTypes_def MeasureType_IsValid_iff MeasureType_consts)

text \<open>
  Claim C10. \<^verbatim>\<open>filterValidMeasureTypeValues\<close> returns exactly the elements of its
  input for which \<^verbatim>\<open>IsValid\<close> holds, in their original relative order (it is the
  list filter by \<^verbatim>\<open>IsValid\<close>); every element of \<^verbatim>\<open>AllMeasureTypes()\<close> is valid, so
  filtering \<^verbatim>\<open>AllMeasureTypes()\<close> returns it unchanged; and filtering twice equals
  filtering once.
\<close>

theorem filterValidMeasureTypeValues_spec:
  "filterValidMeasureTypeValues vals = filter MeasureType_IsValid vals
   \<and> list_all MeasureType_IsValid AllMeasureTypes
   \<and> filterValidMeasureTypeValues AllMeasureTypes = AllMeasureTypes
   \<and> filterValidMeasureTypeValues (filterValidMeasureTypeValues vals)
       = filterValidMeasureTypeValues vals"
proof -
  have "filter MeasureType_IsValid AllMeasureTypes = AllMeasureTypes"
    using AllMeasureTypes_valid by (simp add: list_all_iff)
  then show ?thesis
    by (simp add: filterValidMeasureTypeValues_filter AllMeasureTypes_valid)
qed

theorem filterValidMeasureTypeValues_spec_witness:
  "filterValidMeasureTypeValues [MeasureTypeWeight, 0, MeasureTypeHeight, 2, MeasureTypeAtrialFib]
     = [MeasureTypeWeight, MeasureTypeHeight, MeasureTypeAtrialFib]
   \<and> filterValidMeasureTypeValues [0, 2, 3] = []"
  using filterValidMeasureTypeValues_spec
          [of "[MeasureTypeWeight, 0, MeasureTypeHeight, 2, MeasureTypeAtrialFib]"]
        filterValidMeasureTypeValues_spec [of "[0, 2, 3]"]
  by (simp add: MeasureType_IsValid_iff MeasureType_consts)

text \<open>
  Claim C7, as amended. Each service call depends on its list of enum values only
  through the valid values, in their order: the invalid ones are dropped without an
  error. \<^verbatim>\<open>Getactivity\<close>, \<^verbatim>\<open>Getintradayactivity\<close> and \<^verbatim>\<open>Getworkouts\<close> reject the
  call exactly when no valid value remains, and otherwise post the form built from
  the valid values. \<^verbatim>\<open>Getmeas\<close> first rejects an invalid category, whatever the list
  holds; for a valid category it rejects the call exactly when no valid measure type
  remains. A call that posts is never a rejection.
\<close>

theorem service_calls_filter_enum_values:
  "Getmeas env decode_v zero c ctx measureTypes category opts =
     (if \<not> MeasureCategory_IsValid category then rejected ''invalid category''
      else if filter MeasureType_IsValid measureTypes = []
      then rejected ''need at least one measure type''
      else posted (PostForm env decode_v c ctx ''measure''
                     (Getmeas_form (filter MeasureType_IsValid measureTypes) category opts) zero))
   \<and> Getactivity env decode_a zero_a c ctx activityFields opts =
     (if filter ActivityField_IsValid activityFields = []
      then rejected ''need at least one activity field''
      else posted (PostForm env decode_a c ctx ''v2/measure''
                     (Getactivity_form (filter ActivityField_IsValid activityFields) opts) zero_a))
   \<and> Getintradayactivity env decode_i zero_i c ctx intradayFields opts =
     (if filter IntradayActivityField_IsValid intradayFields = []
      then rejected ''need at least one intraday activity data field''
      else posted (PostForm env decode_i c ctx ''v2/measure''
                     (Getintradayactivity_form
                        (filter IntradayActivityField_IsValid intradayFields) opts) zero_i))
   \<and> Getworkouts env decode_w zero_w c ctx workoutFields opts =
     (if filter WorkoutField_IsValid workoutFields = []
      then rejected ''need at least one workout data field''
      else posted (PostForm env decode_w c ctx ''v2/measure''
                     (Getworkouts_form (filter WorkoutField_IsValid workoutFields) opts) zero_w))
   \<and> (\<forall>r. posted r \<noteq> (rejected msg :: ('z option) Outcome))"
  by (simp add: Getmeas_def Getactivity_def Getintradayactivity_def Getworkouts_def
      filterValidMeasureTypeValues_filter filterValidActivityFieldValues_filter
      filterValidIntradayActivityFieldValues_filter filterValidWorkoutFieldValues_filter
      posted_def rejected_def Let_def)

theorem service_calls_filter_enum_values_witness:
  "filter ActivityField_IsValid [ActivityFieldSteps, ''bogus'', ActivityFieldHRMin]
     = [ActivityFieldSteps, ActivityFieldHRMin]
   \<and> out_Err (Getactivity ex_env ex_decode_v [] (ex_client ex_body) ex_ctx
                [ActivityFieldSteps, ''bogus'', ActivityFieldHRMin] ex_opts) = None
   \<and> map Body (out_Sent (Getactivity ex_env ex_decode_v [] (ex_client ex_body) ex_ctx
                [ActivityFieldSteps, ''bogus'', ActivityFieldHRMin] ex_opts))
       = [''action=getactivity&data_fields=steps%2Chr_min&lastupdate=1700000000'']
   \<and> Getactivity ex_env ex_decode_v [] (ex_client ex_body) ex_ctx [''bogus''] ex_opts
       = rejected ''need at least one activity field''
   \<and> Getmeas ex_env ex_decode_v [] (ex_client ex_body) ex_ctx [MeasureTypeWeight, 0]
         MeasureCategoryRealMeasure ex_opts
       = Getmeas ex_env ex_decode_v [] (ex_client ex_body) ex_ctx [MeasureTypeWeight]
           MeasureCategoryRealMeasure ex_opts"
proof -
  have valid: "filter ActivityField_IsValid [ActivityFieldSteps, ''bogus'', ActivityFieldHRMin]
                 = [ActivityFieldSteps, ActivityFieldHRMin]"
    "filter ActivityField_IsValid [''bogus''] = []"
    "filter MeasureType_IsValid [MeasureTypeWeight, 0] = [MeasureTypeWeight]"
    "filter MeasureType_IsValid [MeasureTypeWeight] = [MeasureTypeWeight]"
    by (simp_all add: ActivityField_IsValid_iff AllActivityFields_def ActivityField_consts
        MeasureType_IsValid_iff MeasureType_consts)
  have sent: "out_Err (posted (PostForm ex_env ex_decode_v (ex_client ex_body) ex_ctx
                ''v2/measure'' (Getactivity_form [ActivityFieldSteps, ActivityFieldHRMin] ex_opts)
                [])) = None"
    "map Body (out_Sent (posted (PostForm ex_env ex_decode_v (ex_client ex_body) ex_ctx
                ''v2/measure'' (Getactivity_form [ActivityFieldSteps, ActivityFieldHRMin] ex_opts)
                [])))
       = [''action=getactivity&data_fields=steps%2Chr_min&lastupdate=1700000000'']"
    by code_simp+
  note getmeas = service_calls_filter_enum_values [THEN conjunct1]
  note getactivity = service_calls_filter_enum_values [THEN conjunct2, THEN conjunct1]
  have a1: "Getactivity ex_env ex_decode_v [] (ex_client ex_body) ex_ctx
              [ActivityFieldSteps, ''bogus'', ActivityFieldHRMin] ex_opts
            = posted (PostForm ex_env ex_decode_v (ex_client ex_body) ex_ctx ''v2/measure''
                (Getactivity_form [ActivityFieldSteps, ActivityFieldHRMin] ex_opts) [])"
    by (simp only: getactivity valid) simp
  have a2: "Getactivity ex_env ex_decode_v [] (ex_client ex_body) ex_ctx [''bogus''] ex_opts
            = rejected ''need at least one activity field''"
    by (simp only: getactivity valid) simp
  have a3: "Getmeas ex_env ex_decode_v [] (ex_client ex_body) ex_ctx [MeasureTypeWeight, 0]
         MeasureCategoryRealMeasure ex_opts
       = Getmeas ex_env ex_decode_v [] (ex_client ex_body) ex_ctx [MeasureTypeWeight]
           MeasureCategoryRealMeasure ex_opts"
    by (simp only: getmeas valid)
  show ?thesis
    using valid(1) sent a1 a2 a3 by simp
qed

text \<open>
  Claim C7 as stated fails for \<^verbatim>\<open>Getmeas\<close>: with the category 0, which is not a
  valid category, a list that mixes the valid measure type 1 with the invalid 0 is
  rejected, although the valid value 1 remains after filtering; no request is sent.
\<close>

theorem Getmeas_mixed_list_rejected:
  "filterValidMeasureTypeValues [MeasureTypeWeight, 0] = [MeasureTypeWeight]
   \<and> Getmeas ex_env ex_decode_v [] (ex_client []) ex_ctx [MeasureTypeWeight, 0] 0 ex_opts
       = rejected ''invalid category''
   \<and> out_Sent (Getmeas ex_env ex_decode_v [] (ex_client []) ex_ctx [MeasureTypeWeight, 0] 0 ex_opts)
       = []"
  by (simp add: Getmeas_def filterValidMeasureTypeValues_filter MeasureType_IsValid_iff
      MeasureCategory_IsValid_iff MeasureTypeWeight_def rejected_def)

lemma map_of_Values_Set: "map_of (Values_Set v k x) = (map_of v)(k \<mapsto> [x])"
  by (induction v k x rule: Values_Set.induct) auto













subsection \<open>Date parameters\<close>



subsection \<open>Authorization-code exchange\<close>

text \<open>
  Claim C1. For every configuration and code, \<^verbatim>\<open>Exchange\<close> hands \<^verbatim>\<open>retrieveToken\<close> a
  form whose \<^verbatim>\<open>action\<close> is \<^verbatim>\<open>requesttoken\<close>, whose \<^verbatim>\<open>grant_type\<close> is
  \<^verbatim>\<open>authorization_code\<close> and whose \<^verbatim>\<open>code\<close> is the given code; the form has a
  \<^verbatim>\<open>redirect_uri\<close> exactly when the configured \<^verbatim>\<open>RedirectURL\<close> is not empty, and then it
  is that URL; the form has no other key, so no \<^verbatim>\<open>refresh_token\<close>, and \<^verbatim>\<open>refresh_token\<close>
  is not among the values of \<^verbatim>\<open>grant_type\<close>.
\<close>

theorem Exchange_form:
  "Exchange RetrieveToken c ctx code = retrieveToken RetrieveToken ctx c (Exchange_values c code)
   \<and> map_of (Exchange_values c code) ''action'' = Some [''requesttoken'']
   \<and> map_of (Exchange_values c code) ''grant_type'' = Some [''authorization_code'']
   \<and> map_of (Exchange_values c code) ''code'' = Some [code]
   \<and> (map_of (Exchange_values c code) ''redirect_uri'' \<noteq> None) = (RedirectURL c \<noteq> [])
   \<and> map_of (Exchange_values c code) ''redirect_uri''
       = (if RedirectURL c \<noteq> [] then Some [RedirectURL c] else None)
   \<and> dom (map_of (Exchange_values c code))
       = (if RedirectURL c \<noteq> [] then {''action'', ''grant_type'', ''code'', ''redirect_uri''}
          else {''action'', ''grant_type'', ''code''})
   \<and> map_of (Exchange_values c code) ''refresh_token'' = None
   \<and> map_of (Exchange_values c code) ''grant_type'' \<noteq> Some [''refresh_token'']
   \<and> Values_Get (Exchange_values c code) ''grant_type'' = ''authorization_code''"
  by (auto simp: Exchange_def Exchange_values_def Values_Get_def)

theorem Exchange_form_witness:
  "Exchange_values ex_config ''CODE''
     = [(''action'', [''requesttoken'']), (''grant_type'', [''authorization_code'']),
        (''code'', [''CODE'']), (''redirect_uri'', [''https://app.example/cb''])]
   \<and> map_of (Exchange_values (ex_config\<lparr>RedirectURL := []\<rparr>) ''CODE'') ''redirect_uri'' = None
   \<and> Values_Encode (Exchange_values ex_config ''CODE'')
       = ''action=requesttoken&code=CODE&grant_type=authorization_code''
         @ ''&redirect_uri=https%3A%2F%2Fapp.example%2Fcb''"
proof -
  have v: "Exchange_values ex_config ''CODE''
     = [(''action'', [''requesttoken'']), (''grant_type'', [''authorization_code'']),
        (''code'', [''CODE'']), (''redirect_uri'', [''https://app.example/cb''])]"
    by (simp add: Exchange_values_def ex_config_def)
  have e: "Values_Encode (Exchange_values ex_config ''CODE'')
       = ''action=requesttoken&code=CODE&grant_type=authorization_code''
         @ ''&redirect_uri=https%3A%2F%2Fapp.example%2Fcb''"
    by code_simp
  show ?thesis
    using v e Exchange_form [of _ "ex_config\<lparr>RedirectURL := []\<rparr>" _ "''CODE''"]
    by simp
qed

subsection \<open>Consent URL\<close>

lemma map_of_apply_options_other:
  "k \<notin> option_key ` set opts \<Longrightarrow> map_of (apply_options opts v) k = map_of v k"
proof (induction opts arbitrary: v)
  case Nil
  then show ?case by simp
next
  case (Cons a opts)
  then show ?case by (cases a) (simp add: map_of_Values_Set)
qed

lemma apply_options_append:
  "apply_options (xs @ ys) v = apply_options ys (apply_options xs v)"
  by (induction xs arbitrary: v) simp_all

lemma oauth2_AuthCodeURL_values_append:
  "oauth2_AuthCodeURL_values c state (opts @ extra)
     = apply_options extra (oauth2_AuthCodeURL_values c state opts)"
  by (simp add: oauth2_AuthCodeURL_values_def Let_def apply_options_append)

lemma AuthCodeURL_values_append:
  "AuthCodeURL_values c state (opts @ extra)
     = apply_options extra (AuthCodeURL_values c state opts)"
  by (simp add: AuthCodeURL_values_def AuthCodeURL_options_def
      oauth2_AuthCodeURL_values_append [symmetric])

lemma AuthCodeURL_values_scope:
  assumes "Scopes c \<noteq> []" and "''scope'' \<notin> option_key ` set opts"
  shows "map_of (AuthCodeURL_values c state opts) ''scope''
           = Some [strings_Join (Scopes c) '','']"
  using assms
  by (simp add: AuthCodeURL_values_def AuthCodeURL_options_def oauth2_AuthCodeURL_values_def
      Let_def map_of_apply_options_other map_of_Values_Set)

lemma AuthCodeURL_encodes_values:
  "AuthCodeURL c state opts
     = AuthURL (ConfigEndpoint c)
       @ (if CHR ''?'' \<in> set (AuthURL (ConfigEndpoint c)) then ''&'' else ''?'')
       @ Values_Encode (AuthCodeURL_values c state opts)"
  by (simp add: AuthCodeURL_def AuthCodeURL_values_def oauth2_AuthCodeURL_def)

text \<open>
  Claim C2, as amended. The consent URL is the authorization endpoint followed by the
  encoded parameter set. For a non-empty scope list, and extra options none of which
  names \<^verbatim>\<open>scope\<close> itself, the \<^verbatim>\<open>scope\<close> parameter is the scope values joined with a
  comma in their order (for \<^verbatim>\<open>["a","b","c"]\<close> it is \<^verbatim>\<open>a,b,c\<close>). An extra option appended
  to the list sets its own parameter and leaves every other parameter as it was; the
  demo-mode flag adds \<^verbatim>\<open>mode=demo\<close> and changes nothing else.
\<close>

theorem AuthCodeURL_scope_comma_joined:
  "AuthCodeURL c state opts
     = AuthURL (ConfigEndpoint c)
       @ (if CHR ''?'' \<in> set (AuthURL (ConfigEndpoint c)) then ''&'' else ''?'')
       @ Values_Encode (AuthCodeURL_values c state opts)
   \<and> (Scopes c \<noteq> [] \<and> ''scope'' \<notin> option_key ` set opts \<longrightarrow>
        map_of (AuthCodeURL_values c state opts) ''scope''
          = Some [strings_Join (Scopes c) '',''])
   \<and> map_of (AuthCodeURL_values c state (opts @ [SetAuthURLParam k x])) k = Some [x]
   \<and> (k' \<noteq> k \<longrightarrow>
        map_of (AuthCodeURL_values c state (opts @ [SetAuthURLParam k x])) k'
          = map_of (AuthCodeURL_values c state opts) k')
   \<and> map_of (AuthCodeURL_values c state (opts @ [ModeDemo]))
       = (map_of (AuthCodeURL_values c state opts))(''mode'' \<mapsto> [''demo''])
   \<and> strings_Join [''a'', ''b'', ''c''] '','' = ''a,b,c''"
  by (simp add: AuthCodeURL_encodes_values AuthCodeURL_values_scope
      AuthCodeURL_values_append map_of_Values_Set ModeDemo_def)

theorem AuthCodeURL_scope_comma_joined_witness:
  "Scopes ex_config \<noteq> [] \<and> ''scope'' \<notin> option_key ` set [ModeDemo]
   \<and> ''scope'' \<noteq> ''mode''
   \<and> map_of (AuthCodeURL_values ex_config ''xyz'' [ModeDemo]) ''scope'' = Some [''a,b,c'']
   \<and> map_of (AuthCodeURL_values ex_config ''xyz'' ([] @ [ModeDemo])) ''scope''
       = map_of (AuthCodeURL_values ex_config ''xyz'' []) ''scope''
   \<and> AuthCodeURL ex_config ''xyz'' [ModeDemo]
       = ''https://account.withings.com/oauth2_user/authorize2''
         @ ''?client_id=id&mode=demo&redirect_uri=https%3A%2F%2Fapp.example%2Fcb''
         @ ''&response_type=code&scope=a%2Cb%2Cc&state=xyz''"
proof -
  have hyp: "Scopes ex_config \<noteq> [] \<and> ''scope'' \<notin> option_key ` set [ModeDemo]"
    by (simp add: ex_config_def ModeDemo_def)
  have join: "strings_Join (Scopes ex_config) '','' = ''a,b,c''"
    by (simp add: ex_config_def)
  have url: "AuthCodeURL ex_config ''xyz'' [ModeDemo]
       = ''https://account.withings.com/oauth2_user/authorize2''
         @ ''?client_id=id&mode=demo&redirect_uri=https%3A%2F%2Fapp.example%2Fcb''
         @ ''&response_type=code&scope=a%2Cb%2Cc&state=xyz''"
    by code_simp
  from hyp AuthCodeURL_scope_comma_joined [of ex_config "''xyz''" "[ModeDemo]"]
  have scope: "map_of (AuthCodeURL_values ex_config ''xyz'' [ModeDemo]) ''scope''
                 = Some [strings_Join (Scopes ex_config) '','']"
    by blast
  from AuthCodeURL_scope_comma_joined [of ex_config "''xyz''" "[]" "''mode''" "''demo''" "''scope''"]
  have frame: "map_of (AuthCodeURL_values ex_config ''xyz'' ([] @ [ModeDemo])) ''scope''
                 = map_of (AuthCodeURL_values ex_config ''xyz'' []) ''scope''"
    by (simp add: ModeDemo_def)
  show ?thesis
    using hyp join url scope frame by simp
qed

text \<open>
  Claim C2 as stated fails when an extra option names \<^verbatim>\<open>scope\<close>: the wrapper puts its
  comma-joined option first, so the caller's option is applied after it and replaces
  it. With the scopes \<^verbatim>\<open>["a","b","c"]\<close> and the option
  \<^verbatim>\<open>SetAuthURLParam("scope", "x")\<close> the URL carries \<^verbatim>\<open>scope=x\<close>.
\<close>

theorem AuthCodeURL_scope_overridden:
  "Scopes ex_config = [''a'', ''b'', ''c'']
   \<and> map_of (AuthCodeURL_values ex_config ''xyz'' [SetAuthURLParam ''scope'' ''x'']) ''scope''
       = Some [''x'']
   \<and> AuthCodeURL ex_config ''xyz'' [SetAuthURLParam ''scope'' ''x'']
       = ''https://account.withings.com/oauth2_user/authorize2''
         @ ''?client_id=id&redirect_uri=https%3A%2F%2Fapp.example%2Fcb''
         @ ''&response_type=code&scope=x&state=xyz''"
  by code_simp

subsection \<open>Transport\<close>

lemma strings_HasSuffix_slash:
  "strings_HasSuffix s ''/'' \<longleftrightarrow> s \<noteq> [] \<and> last s = CHR ''/''"
proof (cases s rule: rev_cases)
  case Nil
  then show ?thesis by (simp add: strings_HasSuffix_def)
next
  case (snoc ys y)
  then show ?thesis by (simp add: strings_HasSuffix_def)
qed

text \<open>
  Claim C6. When the HTTP call of \<^verbatim>\<open>BareDo\<close> fails, the error returned is the
  context's cancellation error if the request's context has been cancelled, and the
  transport error, untouched, if it has not (or if the request carries no context of
  its own); in both cases the one request was handed to the HTTP client.
\<close>

theorem BareDo_transport_failure:
  assumes "client c req = Inl err"
  shows "(ReqCtx req = Some (Context (Some cerr)) \<longrightarrow>
            BareDo c req = ((None, Some cerr), [req]))
         \<and> (ReqCtx req = Some (Context None) \<or> ReqCtx req = None \<longrightarrow>
            BareDo c req = ((None, Some err), [req]))"
  using assms
  by (auto simp: BareDo_def Request_Context_def ctx_Done_def split: option.splits)

theorem BareDo_transport_failure_witness:
  "client ex_failing_client (ex_request (Some (Context (Some Canceled))))
     = Inl (ErrorString ''connection refused'')
   \<and> BareDo ex_failing_client (ex_request (Some (Context (Some Canceled))))
       = ((None, Some Canceled), [ex_request (Some (Context (Some Canceled)))])
   \<and> BareDo ex_failing_client (ex_request (Some (Context None)))
       = ((None, Some (ErrorString ''connection refused'')),
          [ex_request (Some (Context None))])"
proof -
  have fails: "client ex_failing_client r = Inl (ErrorString ''connection refused'')" for r
    by (simp add: ex_failing_client_def)
  show ?thesis
    using fails
      BareDo_transport_failure [OF fails, of "ex_request (Some (Context (Some Canceled)))" Canceled]
      BareDo_transport_failure [OF fails, of "ex_request (Some (Context None))" Canceled]
    by (simp add: ex_request_def)
qed

lemma NewRequest_no_trailing_slash:
  "\<not> strings_HasSuffix (Path (BaseURL c)) ''/'' \<Longrightarrow>
   NewRequest env c ctx method urlStr body = Inl (BaseURLTrailingSlash (BaseURL c))"
  by (simp add: NewRequest_def)

lemma PostForm_no_trailing_slash:
  "\<not> strings_HasSuffix (Path (BaseURL c)) ''/'' \<Longrightarrow>
   PostForm env decode_v c ctx url data v =
     \<lparr>out_Response = None, out_Err = Some (BaseURLTrailingSlash (BaseURL c)),
      out_Target = v, out_Sent = []\<rparr>"
  by (simp add: PostForm_def NewRequest_no_trailing_slash)

lemma posted_no_trailing_slash:
  "\<not> strings_HasSuffix (Path (BaseURL c)) ''/'' \<Longrightarrow>
   out_Err (posted (PostForm env decode_v c ctx url data v))
     = Some (BaseURLTrailingSlash (BaseURL c))
   \<and> out_Sent (posted (PostForm env decode_v c ctx url data v)) = []"
  by (simp add: PostForm_no_trailing_slash posted_def)

lemma rejected_no_request:
  "out_Err (rejected msg) = Some (ErrorString msg) \<and> out_Sent (rejected msg) = []"
  by (simp add: rejected_def)

lemma services_no_trailing_slash:
  assumes "\<not> strings_HasSuffix (Path (BaseURL c)) ''/''"
  shows "out_Err (Getmeas env decode_v zero c ctx measureTypes category opts) \<noteq> None
         \<and> out_Sent (Getmeas env decode_v zero c ctx measureTypes category opts) = []"
    and "out_Err (Getactivity env decode_a zero_a c ctx activityFields opts) \<noteq> None
         \<and> out_Sent (Getactivity env decode_a zero_a c ctx activityFields opts) = []"
    and "out_Err (Getintradayactivity env decode_i zero_i c ctx intradayFields opts) \<noteq> None
         \<and> out_Sent (Getintradayactivity env decode_i zero_i c ctx intradayFields opts) = []"
    and "out_Err (Getworkouts env decode_w zero_w c ctx workoutFields opts) \<noteq> None
         \<and> out_Sent (Getworkouts env decode_w zero_w c ctx workoutFields opts) = []"
  by (simp_all add: Getmeas_def Getactivity_def Getintradayactivity_def Getworkouts_def Let_def
      posted_no_trailing_slash [OF assms] rejected_no_request)

lemma resolve_example:
  "ResolveReference ex_base ex_ref = ex_resolved"
  "URL_String ex_resolved = ''https://api.example.com/v2/resource''"
  "URL_String ex_base = ''https://api.example.com/''"
  by code_simp+

text \<open>
  Claim C5. For a client whose \<^verbatim>\<open>BaseURL\<close> path does not end in \<^verbatim>\<open>/\<close>,
  \<^verbatim>\<open>NewRequest\<close> returns the trailing-slash error, \<^verbatim>\<open>PostForm\<close> returns it without
  handing any request to the HTTP client, and so every service call ends in an error
  with no request sent. For the base \<^verbatim>\<open>https://api.example.com/\<close> and the relative
  path \<^verbatim>\<open>v2/resource\<close> (given that \<^verbatim>\<open>url.Parse\<close> reads the relative path, and the
  resolved URL text, as \<^verbatim>\<open>net/url\<close> does), \<^verbatim>\<open>NewRequest\<close> builds a request whose URL is
  \<^verbatim>\<open>https://api.example.com/v2/resource\<close>.
\<close>

theorem BaseURL_trailing_slash:
  "(\<not> strings_HasSuffix (Path (BaseURL c)) ''/'' \<longrightarrow>
      NewRequest env c ctx method urlStr body = Inl (BaseURLTrailingSlash (BaseURL c))
      \<and> PostForm env decode_v c ctx urlStr data v =
          \<lparr>out_Response = None, out_Err = Some (BaseURLTrailingSlash (BaseURL c)),
           out_Target = v, out_Sent = []\<rparr>
      \<and> out_Err (Getmeas env decode_v zero c ctx measureTypes category opts) \<noteq> None
      \<and> out_Sent (Getmeas env decode_v zero c ctx measureTypes category opts) = []
      \<and> out_Err (Getactivity env decode_v zero c ctx activityFields opts) \<noteq> None
      \<and> out_Sent (Getactivity env decode_v zero c ctx activityFields opts) = []
      \<and> out_Err (Getintradayactivity env decode_v zero c ctx intradayFields opts) \<noteq> None
      \<and> out_Sent (Getintradayactivity env decode_v zero c ctx intradayFields opts) = []
      \<and> out_Err (Getworkouts env decode_v zero c ctx workoutFields opts) \<noteq> None
      \<and> out_Sent (Getworkouts env decode_v zero c ctx workoutFields opts) = [])
   \<and> (BaseURL c = ex_base
        \<and> url_Parse env ''v2/resource'' = Inr ex_ref
        \<and> url_Parse env ''https://api.example.com/v2/resource'' = Inr ex_resolved \<longrightarrow>
      URL_String (BaseURL c) = ''https://api.example.com/''
      \<and> strings_HasSuffix (Path (BaseURL c)) ''/''
      \<and> (\<exists>req. NewRequest env c (Some live) ''POST'' ''v2/resource'' body = Inr req
                \<and> URL_String (ReqURL req) = ''https://api.example.com/v2/resource''
                \<and> Method req = ''POST'' \<and> Body req = body))"
proof -
  have a: ?thesis if "\<not> strings_HasSuffix (Path (BaseURL c)) ''/''" and "BaseURL c \<noteq> ex_base"
    using that
    by (simp add: NewRequest_no_trailing_slash PostForm_no_trailing_slash
        services_no_trailing_slash)
  have slash: "strings_HasSuffix (Path ex_base) ''/''"
    by (simp add: ex_base_def strings_HasSuffix_def)
  have b: ?thesis if base: "BaseURL c = ex_base"
  proof -
    have port: "ex_resolved\<lparr>Host := removeEmptyPort (Host ex_resolved)\<rparr> = ex_resolved"
      by code_simp
    have post: "validMethod ''POST''"
      by (simp add: validMethod_def isTokenChar_def)
    have "\<exists>req. NewRequest env c (Some live) ''POST'' ''v2/resource'' body = Inr req
                \<and> URL_String (ReqURL req) = ''https://api.example.com/v2/resource''
                \<and> Method req = ''POST'' \<and> Body req = body"
      if p1: "url_Parse env ''v2/resource'' = Inr ex_ref"
        and p2: "url_Parse env ''https://api.example.com/v2/resource'' = Inr ex_resolved"
    proof -
      have r1: "URL_Parse env (BaseURL c) ''v2/resource'' = Inr ex_resolved"
        using p1 base by (simp add: URL_Parse_def resolve_example)
      have r2: "http_NewRequestWithContext env (Some live) ''POST'' (URL_String ex_resolved) body
                  = Inr \<lparr>Method = ''POST'', ReqURL = ex_resolved, Header = Map.empty,
                         Body = body, ReqCtx = Some live\<rparr>"
        using p2 post by (simp add: http_NewRequestWithContext_def resolve_example port)
      show ?thesis
        using slash base r1 r2 by (simp add: NewRequest_def resolve_example)
    qed
    then show ?thesis
      using base slash by (auto simp: resolve_example)
  qed
  have c': ?thesis if "strings_HasSuffix (Path (BaseURL c)) ''/''" and "BaseURL c \<noteq> ex_base"
    using that by simp
  from a b c' show ?thesis by blast
qed

theorem BaseURL_trailing_slash_witness:
  "\<not> strings_HasSuffix (Path (BaseURL ((ex_client ex_body)\<lparr>BaseURL := ex_base\<lparr>Path := ''/api''\<rparr>\<rparr>))) ''/''
   \<and> out_Sent (PostForm ex_env ex_decode_v
         ((ex_client ex_body)\<lparr>BaseURL := ex_base\<lparr>Path := ''/api''\<rparr>\<rparr>)
         ex_ctx ''v2/resource'' [] []) = []
   \<and> out_Err (PostForm ex_env ex_decode_v
         ((ex_client ex_body)\<lparr>BaseURL := ex_base\<lparr>Path := ''/api''\<rparr>\<rparr>)
         ex_ctx ''v2/resource'' [] [])
       = Some (BaseURLTrailingSlash (ex_base\<lparr>Path := ''/api''\<rparr>))
   \<and> BaseURL (ex_client ex_body) = ex_base
   \<and> url_Parse ex_env ''v2/resource'' = Inr ex_ref
   \<and> url_Parse ex_env ''https://api.example.com/v2/resource'' = Inr ex_resolved
   \<and> (\<exists>req. NewRequest ex_env (ex_client ex_body) (Some (Context None)) ''POST''
                ''v2/resource'' [] = Inr req
              \<and> URL_String (ReqURL req) = ''https://api.example.com/v2/resource'')"
proof -
  have bad: "\<not> strings_HasSuffix
      (Path (BaseURL ((ex_client ex_body)\<lparr>BaseURL := ex_base\<lparr>Path := ''/api''\<rparr>\<rparr>))) ''/''"
    by (simp add: strings_HasSuffix_def)
  have good: "BaseURL (ex_client ex_body) = ex_base
     \<and> url_Parse ex_env ''v2/resource'' = Inr ex_ref
     \<and> url_Parse ex_env ''https://api.example.com/v2/resource'' = Inr ex_resolved"
    by (simp add: ex_client_def ex_env_def ex_url_Parse_def ex_resolved_def ex_base_def
        ex_ref_def)
  from bad BaseURL_trailing_slash
    [where c = "(ex_client ex_body)\<lparr>BaseURL := ex_base\<lparr>Path := ''/api''\<rparr>\<rparr>"
       and env = ex_env and ctx = ex_ctx and urlStr = "''v2/resource''"
       and decode_v = ex_decode_v and data = "[]" and v = "[]"]
  have r1: "PostForm ex_env ex_decode_v
         ((ex_client ex_body)\<lparr>BaseURL := ex_base\<lparr>Path := ''/api''\<rparr>\<rparr>)
         ex_ctx ''v2/resource'' [] [] =
          \<lparr>out_Response = None,
           out_Err = Some (BaseURLTrailingSlash (ex_base\<lparr>Path := ''/api''\<rparr>)),
           out_Target = [], out_Sent = []\<rparr>"
    by simp
  from good BaseURL_trailing_slash
    [where c = "ex_client ex_body" and env = ex_env and live = "Context None"
       and body = "[]" and decode_v = ex_decode_v]
  have r2: "\<exists>req. NewRequest ex_env (ex_client ex_body) (Some (Context None)) ''POST''
                ''v2/resource'' [] = Inr req
              \<and> URL_String (ReqURL req) = ''https://api.example.com/v2/resource''"
    by blast
  show ?thesis using bad good r1 r2 by simp
qed

subsection \<open>The envelope\<close>
















end
